theory Spec2Isabelle
  imports Complex_Main
begin

text \<open>
  A model of the storefront's three state machines: the auth context over AsyncStorage
  (\<^verbatim>\<open>contexts/AuthContext\<close>), the login screen with its attempt limiter
  (\<^verbatim>\<open>app/(auth)/login.tsx\<close>) and the checkout modal (\<^verbatim>\<open>components/PaymentModal.tsx\<close>,
  mounted by \<^verbatim>\<open>app/product/[id].tsx\<close>). React state is a record, an event handler a
  function from the state before the event to the state after it, a rejected promise or
  a thrown exception the left summand of a sum.
\<close>

section \<open>JavaScript strings and numbers\<close>

text \<open>
  A JavaScript string is modelled by \<^typ>\<open>string\<close>; a \<^typ>\<open>char\<close> stands for a UTF-16
  code unit below 256, read through \<^const>\<open>of_char\<close>. The regular expression classes
  \<^verbatim>\<open>\d\<close> and \<^verbatim>\<open>\D\<close> of the source are ASCII classes.
\<close>

definition is_digit :: "char \<Rightarrow> bool" where
  "is_digit c = (48 \<le> (of_char c :: nat) \<and> (of_char c :: nat) \<le> 57)"

definition digit_char :: "nat \<Rightarrow> char" where
  "digit_char d = char_of (48 + d)"

text \<open>\<^verbatim>\<open>Number.prototype.toString()\<close> on an integer: decimal digits, most significant first.\<close>

function digits :: "nat \<Rightarrow> string" where
  "digits n = (if n < 10 then [digit_char n] else digits (n div 10) @ [digit_char (n mod 10)])"
  by pat_completeness auto
termination
  by (relation "measure (\<lambda>n. n)") auto
declare digits.simps [simp del]

definition toString :: "int \<Rightarrow> string" where
  "toString i = (if i < 0 then CHR ''-'' # digits (nat (- i)) else digits (nat i))"

text \<open>\<^verbatim>\<open>s.slice(-k)\<close>: the last \<open>k\<close> code units, or all of \<open>s\<close> when it is shorter.\<close>

definition slice_from_end :: "nat \<Rightarrow> string \<Rightarrow> string" where
  "slice_from_end k s = (if length s \<le> k then s else drop (length s - k) s)"

text \<open>The value of a string of decimal digits; used to state what the last six digits are.\<close>

definition digit_value :: "char \<Rightarrow> nat" where
  "digit_value c = of_char c - 48"

definition decimal_value :: "string \<Rightarrow> nat" where
  "decimal_value ds = foldl (\<lambda>a c. 10 * a + digit_value c) 0 ds"

section \<open>PaymentModal: input formatting and the order identifier\<close>

text \<open>\<^verbatim>\<open>text.replace(/\D/g, '')\<close>\<close>

definition strip_non_digits :: "string \<Rightarrow> string" where
  "strip_non_digits text = filter is_digit text"

text \<open>
  \<^verbatim>\<open>cleaned.replace(/(\d{4})(?=\d)/g, '$1 ')\<close>: scanning from the left, four digits that
  are followed by a digit are copied with a space appended and the scan resumes behind
  the four (the lookahead consumes nothing); any other code unit is copied and the scan
  moves on by one.
\<close>

fun group_by_four :: "string \<Rightarrow> string" where
  "group_by_four (a # b # c # d # e # rest) =
     (if is_digit a \<and> is_digit b \<and> is_digit c \<and> is_digit d \<and> is_digit e
      then a # b # c # d # CHR '' '' # group_by_four (e # rest)
      else a # group_by_four (b # c # d # e # rest))"
| "group_by_four s = s"

definition formatCardNumber :: "string \<Rightarrow> string" where
  "formatCardNumber text =
     (let cleaned = strip_non_digits text;
          formatted = group_by_four cleaned
      in formatted)"

definition formatExpiryDate :: "string \<Rightarrow> string" where
  "formatExpiryDate text =
     (let cleaned = strip_non_digits text
      in if 2 \<le> length cleaned then take 2 cleaned @ ''/'' @ take 2 (drop 2 cleaned)
         else cleaned)"

text \<open>
  The card number format in the words of the specification: the digits of the input, cut
  into groups of four from the left, the groups joined by single spaces.
\<close>

function chunks_of_four :: "string \<Rightarrow> string list" where
  "chunks_of_four ds = (if ds = [] then [] else take 4 ds # chunks_of_four (drop 4 ds))"
  by pat_completeness auto
termination
  by (relation "measure length") auto
declare chunks_of_four.simps [simp del]

fun join_with_space :: "string list \<Rightarrow> string" where
  "join_with_space [] = []"
| "join_with_space [g] = g"
| "join_with_space (g # h # gs) = g @ CHR '' '' # join_with_space (h # gs)"

definition spec_formatCardNumber :: "string \<Rightarrow> string" where
  "spec_formatCardNumber text = join_with_space (chunks_of_four (filter is_digit text))"

text \<open>
  The success step renders \<^verbatim>\<open>ORD{Date.now().toString().slice(-6)}\<close>; the argument is the
  value of \<^verbatim>\<open>Date.now()\<close> at that render.
\<close>

definition orderId :: "int \<Rightarrow> string" where
  "orderId now = ''ORD'' @ slice_from_end 6 (toString now)"

section \<open>JSON values and AsyncStorage\<close>

datatype error = StorageError | SyntaxError | TypeError

text \<open>
  The values \<^verbatim>\<open>JSON.parse\<close> can return. \<open>JNum\<close> carries the value of the parsed number
  (only its being zero is ever observed); the JavaScript value \<^verbatim>\<open>undefined\<close> is \<open>None\<close>
  of \<open>json option\<close>.
\<close>

datatype json =
    JNull
  | JBool bool
  | JNum rat
  | JStr string
  | JArr "json list"
  | JObj "(string \<times> json) list"

text \<open>
  AsyncStorage holds strings. The code looks at a stored string in two ways only: its
  truthiness and what \<^verbatim>\<open>JSON.parse\<close> makes of it. A stored string is therefore
  represented by that: \<open>Empty\<close> is the empty string, \<open>Garbage\<close> a non-empty string that
  \<^verbatim>\<open>JSON.parse\<close> rejects, and \<open>Json v\<close> a string that \<^verbatim>\<open>JSON.parse\<close> maps to \<open>v\<close>.
  \<^verbatim>\<open>JSON.stringify\<close> of an object of strings produces a string that parses back to it.
\<close>

datatype stored_string = Empty | Garbage | Json json

definition JSON_parse :: "stored_string \<Rightarrow> error + json" where
  "JSON_parse t = (case t of Json v \<Rightarrow> Inr v | _ \<Rightarrow> Inl SyntaxError)"

definition JSON_stringify :: "json \<Rightarrow> stored_string" where
  "JSON_stringify v = Json v"

text \<open>Truthiness of a JavaScript value.\<close>

fun truthy :: "json option \<Rightarrow> bool" where
  "truthy None = False"
| "truthy (Some JNull) = False"
| "truthy (Some (JBool b)) = b"
| "truthy (Some (JNum r)) = (r \<noteq> 0)"
| "truthy (Some (JStr s)) = (s \<noteq> [])"
| "truthy (Some (JArr xs)) = True"
| "truthy (Some (JObj kvs)) = True"

text \<open>\<^verbatim>\<open>a || b\<close> where \<open>a\<close> may be \<^verbatim>\<open>undefined\<close>.\<close>

definition js_or :: "json option \<Rightarrow> json \<Rightarrow> json" where
  "js_or a b = (case a of Some v \<Rightarrow> if truthy (Some v) then v else b | None \<Rightarrow> b)"

text \<open>
  Reading one of the properties \<^verbatim>\<open>email\<close>, \<^verbatim>\<open>password\<close>, \<^verbatim>\<open>name\<close> of a parsed value:
  a TypeError on \<^verbatim>\<open>null\<close>, the own property of an object, \<^verbatim>\<open>undefined\<close> otherwise.
\<close>

fun get_prop :: "json \<Rightarrow> string \<Rightarrow> error + json option" where
  "get_prop JNull k = Inl TypeError"
| "get_prop (JObj kvs) k = Inr (map_of kvs k)"
| "get_prop v k = Inr None"

text \<open>\<^verbatim>\<open>s.split(c)\<close> for a one-character separator.\<close>

fun split_on :: "char \<Rightarrow> string \<Rightarrow> string list" where
  "split_on c [] = [[]]"
| "split_on c (x # xs) =
     (if x = c then [] # split_on c xs
      else (case split_on c xs of p # ps \<Rightarrow> (x # p) # ps | [] \<Rightarrow> [[x]]))"

text \<open>\<^verbatim>\<open>parts[0]\<close> of the result of a split, which is never empty.\<close>

fun first_part :: "string list \<Rightarrow> string" where
  "first_part (p # ps) = p"
| "first_part [] = []"

text \<open>
  The storage: its entries, and whether reads and writes are rejected (a rejected promise
  is the error \<open>StorageError\<close>).
\<close>

record storage =
  items :: "string \<rightharpoonup> stored_string"
  read_fails :: bool
  write_fails :: bool

definition getItem :: "storage \<Rightarrow> string \<Rightarrow> error + stored_string option" where
  "getItem st k = (if read_fails st then Inl StorageError else Inr (items st k))"

definition setItem :: "storage \<Rightarrow> string \<Rightarrow> stored_string \<Rightarrow> error + storage" where
  "setItem st k v =
     (if write_fails st then Inl StorageError else Inr (st\<lparr>items := (items st)(k \<mapsto> v)\<rparr>))"

definition removeItem :: "storage \<Rightarrow> string \<Rightarrow> error + storage" where
  "removeItem st k =
     (if write_fails st then Inl StorageError else Inr (st\<lparr>items := (items st)(k := None)\<rparr>))"

definition empty_storage :: storage where
  "empty_storage = \<lparr>items = Map.empty, read_fails = False, write_fails = False\<rparr>"

section \<open>AuthContext\<close>

text \<open>
  The provider's state: \<open>user\<close> (\<open>JNull\<close> is \<^verbatim>\<open>null\<close>) and \<open>isLoading\<close>. An operation
  runs on the pair of this state and the storage, and returns what its promise settles
  to: \<open>Inl\<close> a rejection, \<open>Inr\<close> the value.
\<close>

record auth =
  user :: json
  isLoading :: bool

type_synonym world = "auth \<times> storage"

definition initial_auth :: auth where
  "initial_auth = \<lparr>user = JNull, isLoading = True\<rparr>"

definition setUser :: "json \<Rightarrow> world \<Rightarrow> world" where
  "setUser u w = ((fst w)\<lparr>user := u\<rparr>, snd w)"

definition setIsLoading :: "bool \<Rightarrow> world \<Rightarrow> world" where
  "setIsLoading b w = ((fst w)\<lparr>isLoading := b\<rparr>, snd w)"

text \<open>\<^verbatim>\<open>try { body } catch (error) { handler }\<close> and \<^verbatim>\<open>finally { f }\<close> over a state.\<close>

definition catch_all ::
  "(error + 'a) \<times> 's \<Rightarrow> (error \<Rightarrow> 's \<Rightarrow> (error + 'a) \<times> 's) \<Rightarrow> (error + 'a) \<times> 's" where
  "catch_all r handler = (case r of (Inl e, s) \<Rightarrow> handler e s | (Inr v, s) \<Rightarrow> (Inr v, s))"

definition finally_do :: "(error + 'a) \<times> 's \<Rightarrow> ('s \<Rightarrow> 's) \<Rightarrow> (error + 'a) \<times> 's" where
  "finally_do r f = (fst r, f (snd r))"

definition user_json :: "string \<Rightarrow> json \<Rightarrow> json" where
  "user_json email name = JObj [(''id'', JStr ''1''), (''email'', JStr email), (''name'', name)]"

definition credentials_json :: "string \<Rightarrow> string \<Rightarrow> string \<Rightarrow> json" where
  "credentials_json email password name =
     JObj [(''email'', JStr email), (''password'', JStr password), (''name'', JStr name)]"

text \<open>
  The body of \<^verbatim>\<open>loadUser\<close>'s \<^verbatim>\<open>try\<close>. The result of \<^verbatim>\<open>getItem\<close> is falsy when it is
  \<^verbatim>\<open>null\<close> (\<open>None\<close>) or the empty string.
\<close>

definition loadUser_try :: "world \<Rightarrow> (error + unit) \<times> world" where
  "loadUser_try w =
     (case getItem (snd w) ''user'' of
        Inl e \<Rightarrow> (Inl e, w)
      | Inr None \<Rightarrow> (Inr (), w)
      | Inr (Some userData) \<Rightarrow>
          if userData \<noteq> Empty then
            (case JSON_parse userData of
               Inl e \<Rightarrow> (Inl e, w)
             | Inr parsed \<Rightarrow> (Inr (), setUser parsed w))
          else (Inr (), w))"

definition loadUser :: "world \<Rightarrow> (error + unit) \<times> world" where
  "loadUser w =
     finally_do (catch_all (loadUser_try w) (\<lambda>e s. (Inr (), s))) (setIsLoading False)"

text \<open>The body of \<^verbatim>\<open>login\<close>'s \<^verbatim>\<open>try\<close> (after the 500 ms wait).\<close>

definition login_try :: "string \<Rightarrow> string \<Rightarrow> world \<Rightarrow> (error + bool) \<times> world" where
  "login_try email password w =
     (case getItem (snd w) ''credentials'' of
        Inl e \<Rightarrow> (Inl e, w)
      | Inr None \<Rightarrow> (Inr False, w)
      | Inr (Some storedData) \<Rightarrow>
          if storedData = Empty then (Inr False, w)
          else
            (case JSON_parse storedData of
               Inl e \<Rightarrow> (Inl e, w)
             | Inr parsed \<Rightarrow>
                 (case get_prop parsed ''email'' of
                    Inl e \<Rightarrow> (Inl e, w)
                  | Inr parsed_email \<Rightarrow>
                      if parsed_email = Some (JStr email)
                         \<and> get_prop parsed ''password'' = Inr (Some (JStr password))
                      then
                        (case get_prop parsed ''name'' of
                           Inl e \<Rightarrow> (Inl e, w)
                         | Inr parsed_name \<Rightarrow>
                             let userData =
                               user_json email
                                 (js_or parsed_name (JStr (first_part (split_on CHR ''@'' email))))
                             in (Inr True, setUser userData w))
                      else (Inr False, w))))"

definition login :: "string \<Rightarrow> string \<Rightarrow> world \<Rightarrow> (error + bool) \<times> world" where
  "login email password w =
     finally_do
       (catch_all (login_try email password (setIsLoading True w)) (\<lambda>e s. (Inr False, s)))
       (setIsLoading False)"

text \<open>The body of \<^verbatim>\<open>signup\<close>'s \<^verbatim>\<open>try\<close> (after the 500 ms wait).\<close>

definition email_already_used :: "string \<Rightarrow> stored_string option \<Rightarrow> error + bool" where
  "email_already_used email existing =
     (case existing of
        None \<Rightarrow> Inr False
      | Some existing_data \<Rightarrow>
          if existing_data \<noteq> Empty then
            (case JSON_parse existing_data of
               Inl e \<Rightarrow> Inl e
             | Inr parsed \<Rightarrow>
                 (case get_prop parsed ''email'' of
                    Inl e \<Rightarrow> Inl e
                  | Inr parsed_email \<Rightarrow> Inr (parsed_email = Some (JStr email))))
          else Inr False)"

definition signup_try ::
  "string \<Rightarrow> string \<Rightarrow> string \<Rightarrow> world \<Rightarrow> (error + bool) \<times> world" where
  "signup_try email password name w =
     (case getItem (snd w) ''user'' of
        Inl e \<Rightarrow> (Inl e, w)
      | Inr existing \<Rightarrow>
          (case email_already_used email existing of
             Inl e \<Rightarrow> (Inl e, w)
           | Inr True \<Rightarrow> (Inr False, w)
           | Inr False \<Rightarrow>
               (case setItem (snd w) ''credentials''
                       (JSON_stringify (credentials_json email password name)) of
                  Inl e \<Rightarrow> (Inl e, w)
                | Inr st1 \<Rightarrow>
                    (case getItem st1 ''credentials'' of
                       Inl e \<Rightarrow> (Inl e, (fst w, st1))
                     | Inr check \<Rightarrow>
                         (Inr True, setUser (user_json email (JStr name)) (fst w, st1))))))"

definition signup :: "string \<Rightarrow> string \<Rightarrow> string \<Rightarrow> world \<Rightarrow> (error + bool) \<times> world" where
  "signup email password name w =
     finally_do
       (catch_all (signup_try email password name (setIsLoading True w))
          (\<lambda>e s. (Inr False, s)))
       (setIsLoading False)"

definition logout_try :: "world \<Rightarrow> (error + unit) \<times> world" where
  "logout_try w =
     (let w1 = setUser JNull w
      in case removeItem (snd w1) ''user'' of
           Inl e \<Rightarrow> (Inl e, w1)
         | Inr st1 \<Rightarrow> (Inr (), (fst w1, st1)))"

definition logout :: "world \<Rightarrow> (error + unit) \<times> world" where
  "logout w = catch_all (logout_try w) (\<lambda>e s. (Inr (), s))"

section \<open>Login screen: validation\<close>

text \<open>\<^verbatim>\<open>String.prototype.trim\<close> and \<^verbatim>\<open>toLowerCase\<close> on code units below 256.\<close>

definition is_space :: "char \<Rightarrow> bool" where
  "is_space c = ((of_char c :: nat) \<in> {9, 10, 11, 12, 13, 32, 160})"

definition trim :: "string \<Rightarrow> string" where
  "trim s = rev (dropWhile is_space (rev (dropWhile is_space s)))"

definition lower_char :: "char \<Rightarrow> char" where
  "lower_char c =
     (let n = (of_char c :: nat)
      in if (65 \<le> n \<and> n \<le> 90) \<or> (192 \<le> n \<and> n \<le> 222 \<and> n \<noteq> 215)
         then char_of (n + 32) else c)"

definition toLowerCase :: "string \<Rightarrow> string" where
  "toLowerCase s = map lower_char s"

definition is_alpha :: "char \<Rightarrow> bool" where
  "is_alpha c =
     (let n = (of_char c :: nat) in (65 \<le> n \<and> n \<le> 90) \<or> (97 \<le> n \<and> n \<le> 122))"

definition is_alnum :: "char \<Rightarrow> bool" where
  "is_alnum c = (is_alpha c \<or> is_digit c)"

text \<open>Regular expressions without lookaround, matched against a whole string.\<close>

datatype regex =
    Never
  | Eps
  | Class "char \<Rightarrow> bool"
  | Seq regex regex
  | Alt regex regex
  | Star regex

fun nullable :: "regex \<Rightarrow> bool" where
  "nullable Never = False"
| "nullable Eps = True"
| "nullable (Class P) = False"
| "nullable (Seq r s) = (nullable r \<and> nullable s)"
| "nullable (Alt r s) = (nullable r \<or> nullable s)"
| "nullable (Star r) = True"

fun deriv :: "char \<Rightarrow> regex \<Rightarrow> regex" where
  "deriv c Never = Never"
| "deriv c Eps = Never"
| "deriv c (Class P) = (if P c then Eps else Never)"
| "deriv c (Seq r s) =
     (if nullable r then Alt (Seq (deriv c r) s) (deriv c s) else Seq (deriv c r) s)"
| "deriv c (Alt r s) = Alt (deriv c r) (deriv c s)"
| "deriv c (Star r) = Seq (deriv c r) (Star r)"

fun matches :: "regex \<Rightarrow> string \<Rightarrow> bool" where
  "matches r [] = nullable r"
| "matches r (c # cs) = matches (deriv c r) cs"

fun seqs :: "regex list \<Rightarrow> regex" where
  "seqs [] = Eps"
| "seqs [r] = r"
| "seqs (r # rs) = Seq r (seqs rs)"

text \<open>
  \<^verbatim>\<open>/^[a-zA-Z0-9]([a-zA-Z0-9._-])*[a-zA-Z0-9]@[a-zA-Z0-9]([a-zA-Z0-9.-])*[a-zA-Z0-9]\.[a-zA-Z]{2,}$/\<close>
\<close>

definition emailRegex :: regex where
  "emailRegex =
     seqs [Class is_alnum,
           Star (Class (\<lambda>c. is_alnum c \<or> c = CHR ''.'' \<or> c = CHR ''_'' \<or> c = CHR ''-'')),
           Class is_alnum,
           Class (\<lambda>c. c = CHR ''@''),
           Class is_alnum,
           Star (Class (\<lambda>c. is_alnum c \<or> c = CHR ''.'' \<or> c = CHR ''-'')),
           Class is_alnum,
           Class (\<lambda>c. c = CHR ''.''),
           Class is_alpha, Class is_alpha, Star (Class is_alpha)]"

text \<open>\<^verbatim>\<open>/[._-]{2,}/.test(localPart)\<close>: two adjacent characters of the class somewhere.\<close>

fun has_consecutive_special :: "string \<Rightarrow> bool" where
  "has_consecutive_special (a # b # rest) =
     ((a \<in> {CHR ''.'', CHR ''_'', CHR ''-''} \<and> b \<in> {CHR ''.'', CHR ''_'', CHR ''-''})
      \<or> has_consecutive_special (b # rest))"
| "has_consecutive_special s = False"

definition startsWith :: "string \<Rightarrow> char \<Rightarrow> bool" where
  "startsWith s c = (case s of [] \<Rightarrow> False | x # xs \<Rightarrow> x = c)"

definition endsWith :: "string \<Rightarrow> char \<Rightarrow> bool" where
  "endsWith s c = startsWith (rev s) c"

definition domainSuggestions :: "(string \<times> string) list" where
  "domainSuggestions =
     [(''gmial.com'', ''gmail.com''), (''gmai.com'', ''gmail.com''),
      (''yahooo.com'', ''yahoo.com''), (''hotmial.com'', ''hotmail.com''),
      (''outlok.com'', ''outlook.com'')]"

definition validate_parts :: "string \<Rightarrow> string \<Rightarrow> string option" where
  "validate_parts localPart domain =
     (if 64 < length localPart then Some ''Email username too long (max 64 characters)''
      else if length localPart < 1 then Some ''Email username required''
      else if has_consecutive_special localPart
        then Some ''Email cannot contain consecutive special characters''
      else if startsWith localPart CHR ''.'' \<or> endsWith localPart CHR ''.''
        then Some ''Email cannot start or end with a dot''
      else if 253 < length domain then Some ''Email domain too long''
      else if startsWith domain CHR ''-'' \<or> endsWith domain CHR ''-''
              \<or> startsWith domain CHR ''.'' \<or> endsWith domain CHR ''.''
        then Some ''Invalid domain format''
      else if list_ex (\<lambda>part. length part = 0 \<or> 63 < length part) (split_on CHR ''.'' domain)
        then Some ''Invalid domain structure''
      else (case map_of domainSuggestions domain of
              Some suggestion \<Rightarrow> Some (''Did you mean '' @ suggestion @ ''?'')
            | None \<Rightarrow> None))"

definition validateEmail :: "string \<Rightarrow> string option" where
  "validateEmail email =
     (let trimmedEmail = toLowerCase (trim email)
      in if trimmedEmail = [] then Some ''Email is required''
         else if 254 < length trimmedEmail
           then Some ''Email address too long (max 254 characters)''
         else if \<not> matches emailRegex trimmedEmail
           then Some ''Please enter a valid email address''
         else (case split_on CHR ''@'' trimmedEmail of
                 [localPart, domain] \<Rightarrow> validate_parts localPart domain
               | _ \<Rightarrow> Some ''Invalid email format''))"

definition validatePassword :: "string \<Rightarrow> string option" where
  "validatePassword password =
     (if password = [] then Some ''Password is required''
      else if length password < 1 then Some ''Password cannot be empty''
      else if 128 < length password then Some ''Password too long (max 128 characters)''
      else if CHR '' '' \<in> set password then Some ''Password cannot contain spaces''
      else if list_ex (\<lambda>c. (of_char c :: nat) \<le> 31 \<or> (of_char c :: nat) = 127) password
        then Some ''Password contains invalid characters''
      else None)"

text \<open>\<^verbatim>\<open>password.replace(/[<>]/g, '')\<close>\<close>

definition remove_angle_brackets :: "string \<Rightarrow> string" where
  "remove_angle_brackets password = filter (\<lambda>c. c \<noteq> CHR ''<'' \<and> c \<noteq> CHR ''>'') password"

text \<open>A message is falsy when it is \<^verbatim>\<open>null\<close> or empty; \<^verbatim>\<open>error || undefined\<close>.\<close>

definition falsy_message :: "string option \<Rightarrow> bool" where
  "falsy_message m = (m = None \<or> m = Some [])"

definition or_undefined :: "string option \<Rightarrow> string option" where
  "or_undefined m = (if falsy_message m then None else m)"

text \<open>\<^verbatim>\<open>Math.ceil(a / b)\<close> for natural numbers \<open>a\<close> and \<open>b > 0\<close>.\<close>

definition ceil_div :: "nat \<Rightarrow> nat \<Rightarrow> nat" where
  "ceil_div a b = (a + b - 1) div b"

section \<open>Login screen: state, attempt limiter and submission\<close>

record validation_errors =
  email_error :: "string option"
  password_error :: "string option"
  general_error :: "string option"

definition no_errors :: validation_errors where
  "no_errors = \<lparr>email_error = None, password_error = None, general_error = None\<rparr>"

datatype effect = Alert string string | Replace string

definition MAX_ATTEMPTS :: nat where
  "MAX_ATTEMPTS = 5"

definition BLOCK_DURATION :: nat where
  "BLOCK_DURATION = 15 * 60 * 1000"

record login_screen =
  email :: string
  password :: string
  errors :: validation_errors
  touched :: "string set"
  attemptCount :: nat
  isBlocked :: bool
  blockTimeRemaining :: nat

definition initial_login_screen :: login_screen where
  "initial_login_screen =
     \<lparr>email = [], password = [], errors = no_errors, touched = {},
      attemptCount = 0, isBlocked = False, blockTimeRemaining = 0\<rparr>"


definition handleEmailChange :: "string \<Rightarrow> login_screen \<Rightarrow> login_screen" where
  "handleEmailChange txt scr =
     (let cleanedEmail = toLowerCase (trim txt);
          scr1 = scr\<lparr>email := cleanedEmail\<rparr>
      in if ''email'' \<in> touched scr
         then scr1\<lparr>errors := (errors scr)\<lparr>email_error := or_undefined (validateEmail cleanedEmail)\<rparr>\<rparr>
         else scr1)"

definition handlePasswordChange :: "string \<Rightarrow> login_screen \<Rightarrow> login_screen" where
  "handlePasswordChange txt scr =
     (let scr1 = scr\<lparr>password := txt\<rparr>
      in if ''password'' \<in> touched scr
         then scr1\<lparr>errors := (errors scr)\<lparr>password_error := or_undefined (validatePassword txt)\<rparr>\<rparr>
         else scr1)"

definition validateForm :: "login_screen \<Rightarrow> bool \<times> login_screen" where
  "validateForm scr =
     (let emailError = validateEmail (email scr);
          passwordError = validatePassword (password scr)
      in (falsy_message emailError \<and> falsy_message passwordError,
          scr\<lparr>errors := \<lparr>email_error = or_undefined emailError,
                          password_error = or_undefined passwordError,
                          general_error = None\<rparr>,
              touched := {''email'', ''password''}\<rparr>))"

text \<open>What \<^verbatim>\<open>handleLogin\<close> does once the awaited \<^verbatim>\<open>login\<close> call has settled.\<close>

definition on_login_result ::
  "login_screen \<Rightarrow> (error + bool) \<times> 'w \<Rightarrow> login_screen \<times> 'w \<times> effect list" where
  "on_login_result scr r =
     (case r of
        (Inr True, w) \<Rightarrow>
          (scr\<lparr>attemptCount := 0, errors := no_errors\<rparr>, w, [Replace ''../HomePage''])
      | (Inr False, w) \<Rightarrow>
          (let newAttemptCount = attemptCount scr + 1;
               scr1 = scr\<lparr>attemptCount := newAttemptCount\<rparr>
           in if MAX_ATTEMPTS \<le> newAttemptCount then
                (scr1\<lparr>isBlocked := True, blockTimeRemaining := BLOCK_DURATION\<rparr>, w,
                 [Alert ''Account Temporarily Locked''
                    ''Too many failed login attempts. Your account is locked for 15 minutes.''])
              else
                (let remainingAttempts = MAX_ATTEMPTS - newAttemptCount
                 in (scr1\<lparr>errors := no_errors\<lparr>general_error :=
                        Some (''Invalid email or password. '' @ digits remainingAttempts
                              @ '' attempt(s) remaining.'')\<rparr>\<rparr>, w, [])))
      | (Inl e, w) \<Rightarrow>
          (scr\<lparr>errors := no_errors\<lparr>general_error :=
              Some ''Connection error. Please check your internet and try again.''\<rparr>\<rparr>, w, []))"

text \<open>
  \<^verbatim>\<open>handleLogin\<close>, with the \<^verbatim>\<open>login\<close> operation of the auth context as the parameter
  \<open>login_op\<close>, on the screen state and the state \<open>w\<close> that \<open>login_op\<close> works on.
\<close>

definition handleLogin ::
  "(string \<Rightarrow> string \<Rightarrow> 'w \<Rightarrow> (error + bool) \<times> 'w) \<Rightarrow> login_screen \<Rightarrow> 'w
     \<Rightarrow> login_screen \<times> 'w \<times> effect list" where
  "handleLogin login_op scr w =
     (if isBlocked scr then
        (let minutes = ceil_div (blockTimeRemaining scr) 60000
         in (scr, w,
             [Alert ''Account Temporarily Locked''
                (''Too many failed login attempts. Please wait '' @ digits minutes
                 @ '' minute(s) before trying again.'')]))
      else
        (case validateForm scr of
           (valid, scr1) \<Rightarrow>
             if \<not> valid then (scr1, w, [])
             else
               (let sanitizedEmail = toLowerCase (trim (email scr));
                    sanitizedPassword = remove_angle_brackets (password scr)
                in on_login_result scr1 (login_op sanitizedEmail sanitizedPassword w))))"

text \<open>One press of the login button: the state after \<^verbatim>\<open>handleLogin\<close>.\<close>

definition submit ::
  "(string \<Rightarrow> string \<Rightarrow> 'w \<Rightarrow> (error + bool) \<times> 'w) \<Rightarrow> login_screen \<times> 'w
     \<Rightarrow> login_screen \<times> 'w" where
  "submit login_op sw =
     (case handleLogin login_op (fst sw) (snd sw) of (scr, w, effects) \<Rightarrow> (scr, w))"

definition handleFieldBlur :: "string \<Rightarrow> login_screen \<Rightarrow> login_screen" where
  "handleFieldBlur field_name scr =
     (let scr1 = scr\<lparr>touched := insert field_name (touched scr)\<rparr>
      in if field_name = ''email''
         then scr1\<lparr>errors := (errors scr)\<lparr>email_error :=
                 or_undefined (validateEmail (email scr))\<rparr>\<rparr>
         else if field_name = ''password''
         then scr1\<lparr>errors := (errors scr)\<lparr>password_error :=
                 or_undefined (validatePassword (password scr))\<rparr>\<rparr>
         else scr1)"

text \<open>
  What the user can do on the login screen, against the auth context: type into either
  input, leave either input, press the login button. (The inputs are editable and the
  button enabled only while the screen is not blocked; the handlers are modelled as they
  are written, without that restriction.)
\<close>

datatype login_action = TypeEmail string | TypePassword string | BlurEmail | BlurPassword | PressLogin

fun act :: "login_action \<Rightarrow> login_screen \<times> world \<Rightarrow> login_screen \<times> world" where
  "act (TypeEmail txt) sw = (handleEmailChange txt (fst sw), snd sw)"
| "act (TypePassword txt) sw = (handlePasswordChange txt (fst sw), snd sw)"
| "act BlurEmail sw = (handleFieldBlur ''email'' (fst sw), snd sw)"
| "act BlurPassword sw = (handleFieldBlur ''password'' (fst sw), snd sw)"
| "act PressLogin sw = submit login sw"

fun run_actions :: "login_action list \<Rightarrow> login_screen \<times> world \<Rightarrow> login_screen \<times> world" where
  "run_actions [] sw = sw"
| "run_actions (x # xs) sw = run_actions xs (act x sw)"

text \<open>
  An observer of the login attempts. A press of the button is a login attempt when the
  screen is open and the form is valid; its outcome is what the auth context's \<open>login\<close>
  returns for the sanitized input. \<open>failed_attempts\<close> counts the failed attempts of a run,
  and is \<open>None\<close> when an attempt of the run succeeds.
\<close>

definition press_outcome :: "login_screen \<times> world \<Rightarrow> (error + bool) option" where
  "press_outcome sw =
     (if isBlocked (fst sw) \<or> \<not> fst (validateForm (fst sw)) then None
      else Some (fst (login (toLowerCase (trim (email (fst sw))))
                        (remove_angle_brackets (password (fst sw))) (snd sw))))"

fun failed_attempts :: "login_action list \<Rightarrow> login_screen \<times> world \<Rightarrow> nat option" where
  "failed_attempts [] sw = Some 0"
| "failed_attempts (x # xs) sw =
     (if x = PressLogin then
        (case press_outcome sw of
           None \<Rightarrow> failed_attempts xs (act x sw)
         | Some (Inl e) \<Rightarrow> failed_attempts xs (act x sw)
         | Some (Inr True) \<Rightarrow> None
         | Some (Inr False) \<Rightarrow> map_option Suc (failed_attempts xs (act x sw)))
      else failed_attempts xs (act x sw))"







section \<open>PaymentModal: the checkout steps\<close>

text \<open>
  The state of one mounted PaymentModal. \<open>currentStep\<close> and \<open>paymentMethod\<close> range over
  the strings the component ever assigns; \<open>formData\<close> is the object of ten string
  properties. Three fields belong to the environment of the component:
  \<open>showPaymentModal\<close> is the product page's state, and the page renders the modal only
  while it is true, so that \<^verbatim>\<open>onClose\<close> unmounts the component;
  \<open>clock\<close> is the current time in milliseconds; \<open>timeouts\<close> holds the due times of the
  pending \<^verbatim>\<open>setTimeout\<close> callbacks, in the order they were registered.
\<close>

datatype step = Details | Payment | Processing | Success

datatype payment_method = Card | Upi | Wallet

datatype field =
  FullName | Email | Phone | Address | City | ZipCode | CardNumber | ExpiryDate | Cvv | CardName

record checkout =
  currentStep :: step
  quantity :: nat
  paymentMethod :: payment_method
  isProcessing :: bool
  formData :: "field \<Rightarrow> string"
  showPaymentModal :: bool
  clock :: nat
  timeouts :: "nat list"

definition blank_form :: "field \<Rightarrow> string" where
  "blank_form = (\<lambda>f. [])"

definition initial_checkout :: "nat \<Rightarrow> checkout" where
  "initial_checkout t =
     \<lparr>currentStep = Details, quantity = 1, paymentMethod = Card, isProcessing = False,
      formData = blank_form, showPaymentModal = True, clock = t, timeouts = []\<rparr>"

definition isDetailsValid :: "checkout \<Rightarrow> bool" where
  "isDetailsValid s =
     (formData s FullName \<noteq> [] \<and> formData s Email \<noteq> [] \<and> formData s Phone \<noteq> []
      \<and> formData s Address \<noteq> [] \<and> formData s City \<noteq> [] \<and> formData s ZipCode \<noteq> [])"

definition isPaymentValid :: "checkout \<Rightarrow> bool" where
  "isPaymentValid s =
     (if paymentMethod s = Card
      then formData s CardNumber \<noteq> [] \<and> formData s ExpiryDate \<noteq> []
           \<and> formData s Cvv \<noteq> [] \<and> formData s CardName \<noteq> []
      else True)"

definition handlePayment :: "checkout \<Rightarrow> checkout" where
  "handlePayment s =
     s\<lparr>isProcessing := True, currentStep := Processing,
       timeouts := timeouts s @ [clock s + 2500]\<rparr>"

definition resetAndClose :: "checkout \<Rightarrow> checkout" where
  "resetAndClose s =
     s\<lparr>currentStep := Details, quantity := 1, paymentMethod := Card,
       formData := blank_form, showPaymentModal := False\<rparr>"

text \<open>
  The shipping inputs are rendered in the details step only, the card inputs in the
  payment step while the card method is selected.
\<close>

definition rendered :: "field \<Rightarrow> checkout \<Rightarrow> bool" where
  "rendered f s =
     (if f \<in> {FullName, Email, Phone, Address, City, ZipCode} then currentStep s = Details
      else currentStep s = Payment \<and> paymentMethod s = Card)"

definition onChangeText :: "field \<Rightarrow> string \<Rightarrow> checkout \<Rightarrow> checkout" where
  "onChangeText f txt s =
     s\<lparr>formData := (formData s)
         (f := (if f = CardNumber then formatCardNumber txt
                else if f = ExpiryDate then formatExpiryDate txt
                else txt))\<rparr>"

text \<open>
  What the user and the environment can do to a mounted modal: edit an input that is
  rendered, press a button that is rendered and enabled, let time pass; the runtime calls
  a timeout callback no earlier than its due time. The header's close button and the
  hardware back button (\<^verbatim>\<open>onRequestClose\<close>) are \<open>PressClose\<close>. Once the modal is unmounted
  its state setters do nothing.
\<close>

datatype event =
    ChangeText field string
  | PressContinueToPayment
  | SelectMethod payment_method
  | PressPay
  | PressContinueShopping
  | PressClose
  | Elapse nat
  | TimeoutFires

fun fire_mounted :: "event \<Rightarrow> checkout \<Rightarrow> checkout" where
  "fire_mounted (ChangeText f txt) s = (if rendered f s then onChangeText f txt s else s)"
| "fire_mounted PressContinueToPayment s =
     (if currentStep s = Details \<and> isDetailsValid s then s\<lparr>currentStep := Payment\<rparr> else s)"
| "fire_mounted (SelectMethod m) s =
     (if currentStep s = Payment then s\<lparr>paymentMethod := m\<rparr> else s)"
| "fire_mounted PressPay s =
     (if currentStep s = Payment \<and> isPaymentValid s then handlePayment s else s)"
| "fire_mounted PressContinueShopping s =
     (if currentStep s = Success then resetAndClose s else s)"
| "fire_mounted PressClose s = resetAndClose s"
| "fire_mounted (Elapse d) s = s\<lparr>clock := clock s + d\<rparr>"
| "fire_mounted TimeoutFires s =
     (case timeouts s of
        [] \<Rightarrow> s
      | due # rest \<Rightarrow>
          if due \<le> clock s
          then s\<lparr>isProcessing := False, currentStep := Success, timeouts := rest\<rparr>
          else s)"

definition fire :: "event \<Rightarrow> checkout \<Rightarrow> checkout" where
  "fire e s =
     (if showPaymentModal s then fire_mounted e s
      else (case e of Elapse d \<Rightarrow> s\<lparr>clock := clock s + d\<rparr> | _ \<Rightarrow> s))"

text \<open>
  An observer beside the component: the second component of the pair is the clock value
  at which the current step was entered.
\<close>

definition observe :: "event \<Rightarrow> checkout \<times> nat \<Rightarrow> checkout \<times> nat" where
  "observe e c =
     (let s' = fire e (fst c)
      in (s', if currentStep s' \<noteq> currentStep (fst c) then clock s' else snd c))"

fun run :: "event list \<Rightarrow> checkout \<times> nat \<Rightarrow> checkout \<times> nat" where
  "run [] c = c"
| "run (e # es) c = run es (observe e c)"

text \<open>The invariant of the runs, used in the proofs below.\<close>

definition checkout_inv :: "checkout \<times> nat \<Rightarrow> bool" where
  "checkout_inv c =
     (let s = fst c; since = snd c
      in (currentStep s = Payment \<longrightarrow> isDetailsValid s)
       \<and> (currentStep s = Processing \<longrightarrow>
             isPaymentValid s \<and> showPaymentModal s \<and> timeouts s = [since + 2500])
       \<and> (showPaymentModal s \<and> currentStep s \<noteq> Processing \<longrightarrow> timeouts s = [])
       \<and> (\<not> showPaymentModal s \<longrightarrow> currentStep s = Details))"

section \<open>Example states\<close>

text \<open>
  Concrete states at which the theorems below are instantiated: a stored account, and a
  stored account whose password contains angle brackets; login screens filled in with a
  wrong password, with the right one (after three failures), and with the password that
  contains angle brackets; a screen that has just been locked; the screen at time 0 before
  its fifth failed attempt; two runs of typing and pressing with four and with five
  failed attempts; two runs of the checkout.
\<close>

definition plain_storage :: storage where
  "plain_storage =
     empty_storage\<lparr>items := [''credentials'' \<mapsto>
        JSON_stringify (credentials_json ''ab@cd.ef'' ''Secret1!'' ''Ann'')]\<rparr>"

definition example_storage :: storage where
  "example_storage =
     empty_storage\<lparr>items := [''credentials'' \<mapsto>
        JSON_stringify (credentials_json ''ab@cd.ef'' ''a<b>c'' ''Ann'')]\<rparr>"

definition example_screen :: login_screen where
  "example_screen = initial_login_screen\<lparr>email := ''ab@cd.ef'', password := ''a<b>c''\<rparr>"

definition wrong_password_screen :: login_screen where
  "wrong_password_screen = initial_login_screen\<lparr>email := ''ab@cd.ef'', password := ''wrong''\<rparr>"

definition correct_screen :: login_screen where
  "correct_screen =
     initial_login_screen\<lparr>email := ''ab@cd.ef'', password := ''Secret1!'', attemptCount := 3\<rparr>"

definition locked_screen :: login_screen where
  "locked_screen = correct_screen\<lparr>attemptCount := 5, isBlocked := True,
                                  blockTimeRemaining := BLOCK_DURATION\<rparr>"


definition four_failures :: "login_action list" where
  "four_failures =
     [TypeEmail '' AB@cd.ef'', TypePassword ''wrong'', PressLogin, BlurPassword, PressLogin,
      TypePassword ''Secret1'', BlurEmail, PressLogin, TypePassword [], PressLogin,
      TypePassword ''secret1!'', PressLogin]"

definition five_failures :: "login_action list" where
  "five_failures = four_failures @ [PressLogin, TypePassword ''Secret2!'', PressLogin]"

definition to_payment :: "event list" where
  "to_payment =
     [ChangeText FullName ''Ann Lee'', ChangeText Email ''a@b.com'', ChangeText Phone ''555'',
      ChangeText Address ''1 Main St'', ChangeText City ''Pune'', ChangeText ZipCode ''411001'',
      PressContinueToPayment]"

definition to_processing :: "event list" where
  "to_processing =
     to_payment @
     [ChangeText CardNumber ''4111111111111111'', ChangeText CardName ''Ann Lee'',
      ChangeText ExpiryDate ''1225'', ChangeText Cvv ''123'', PressPay, Elapse 2500]"

section \<open>Properties of the formatting functions\<close>

lemma is_digit_digit_char: "d < 10 \<Longrightarrow> is_digit (digit_char d)"
  by (simp add: is_digit_def digit_char_def)

lemma digit_value_digit_char: "d < 10 \<Longrightarrow> digit_value (digit_char d) = d"
  by (simp add: digit_value_def digit_char_def)

lemma digits_all_digit: "\<forall>c\<in>set (digits n). is_digit c"
proof (induction n rule: digits.induct)
  case (1 n)
  show ?case
  proof (cases "n < 10")
    case True
    then show ?thesis by (subst digits.simps) (simp add: is_digit_digit_char)
  next
    case False
    then show ?thesis using 1 by (subst digits.simps) (simp add: is_digit_digit_char)
  qed
qed

lemma decimal_value_snoc: "decimal_value (ds @ [c]) = 10 * decimal_value ds + digit_value c"
  by (simp add: decimal_value_def)

lemma decimal_value_digits: "decimal_value (digits n) = n"
proof (induction n rule: digits.induct)
  case (1 n)
  show ?case
  proof (cases "n < 10")
    case True
    then show ?thesis
      by (subst digits.simps) (simp add: decimal_value_def digit_value_digit_char)
  next
    case False
    then have "decimal_value (digits (n div 10)) = n div 10" using 1 by simp
    then show ?thesis using False
      by (subst digits.simps) (simp add: decimal_value_snoc digit_value_digit_char)
  qed
qed

lemma length_digits_ge: "10 ^ k \<le> n \<Longrightarrow> k < length (digits n)"
proof (induction k arbitrary: n)
  case 0
  then show ?case by (subst digits.simps) simp
next
  case (Suc k)
  then have "10 ^ k \<le> n div 10" by simp
  then have "k < length (digits (n div 10))" by (rule Suc.IH)
  moreover have "(10::nat) \<le> 10 * 10 ^ k" by simp
  then have "\<not> n < 10" using Suc.prems by (simp only: power_Suc)
  ultimately show ?case by (subst digits.simps) simp
qed

lemma decimal_value_append:
  "decimal_value (xs @ ys) = decimal_value xs * 10 ^ length ys + decimal_value ys"
proof (induction ys rule: rev_induct)
  case Nil
  then show ?case by (simp add: decimal_value_def)
next
  case (snoc y ys)
  have "decimal_value (xs @ ys @ [y]) = 10 * decimal_value (xs @ ys) + digit_value y"
    using decimal_value_snoc [of "xs @ ys" y] by simp
  then show ?case using snoc by (simp add: decimal_value_snoc algebra_simps)
qed

lemma decimal_value_bound:
  "\<forall>c\<in>set ds. is_digit c \<Longrightarrow> decimal_value ds < 10 ^ length ds"
proof (induction ds rule: rev_induct)
  case Nil
  then show ?case by (simp add: decimal_value_def)
next
  case (snoc d ds)
  then have "decimal_value ds < 10 ^ length ds" by simp
  moreover have "digit_value d < 10" using snoc.prems
    by (auto simp: is_digit_def digit_value_def)
  ultimately show ?case by (simp add: decimal_value_snoc)
qed

lemma last6_digits:
  assumes "100000 \<le> n"
  shows "length (slice_from_end 6 (digits n)) = 6
       \<and> (\<forall>c\<in>set (slice_from_end 6 (digits n)). is_digit c)
       \<and> decimal_value (slice_from_end 6 (digits n)) = n mod 1000000"
proof -
  let ?s = "digits n"
  let ?t = "slice_from_end 6 ?s"
  have len: "5 < length ?s" using length_digits_ge [of 5 n] assms by simp
  then have t: "?t = drop (length ?s - 6) ?s"
    by (simp add: slice_from_end_def)
  have l6: "length ?t = 6" using len t by simp
  have dig: "\<forall>c\<in>set ?t. is_digit c"
    using digits_all_digit [of n] t by (metis in_set_dropD)
  have "?s = take (length ?s - 6) ?s @ ?t" using t by simp
  then have "decimal_value ?s
               = decimal_value (take (length ?s - 6) ?s) * 10 ^ 6 + decimal_value ?t"
    using decimal_value_append [of "take (length ?s - 6) ?s" ?t] l6 by simp
  then have "n = decimal_value (take (length ?s - 6) ?s) * 1000000 + decimal_value ?t"
    by (simp add: decimal_value_digits)
  moreover have "decimal_value ?t < 1000000"
    using decimal_value_bound [OF dig] l6 by simp
  ultimately have "decimal_value ?t = n mod 1000000"
    by (metis mod_mult_self3 mod_less)
  then show ?thesis using l6 dig by blast
qed

lemma digits_example: "digits 1730000123456 = ''1730000123456''"
  by (simp add: digits.simps digit_char_def char_of_eq_iff)

lemma chunks_empty: "chunks_of_four [] = []"
  by (simp add: chunks_of_four.simps)

lemma chunks_short: "ds \<noteq> [] \<Longrightarrow> length ds \<le> 4 \<Longrightarrow> chunks_of_four ds = [ds]"
  by (subst chunks_of_four.simps) (simp add: chunks_of_four.simps)

lemma chunks_long:
  "chunks_of_four (a # b # c # d # e # rest) = [a, b, c, d] # chunks_of_four (e # rest)"
  by (subst chunks_of_four.simps) simp

lemma chunks_nonempty: "ds \<noteq> [] \<Longrightarrow> chunks_of_four ds \<noteq> []"
  by (subst chunks_of_four.simps) simp

lemma group_by_four_spec:
  "\<forall>c\<in>set ds. is_digit c \<Longrightarrow> group_by_four ds = join_with_space (chunks_of_four ds)"
proof (induction ds rule: group_by_four.induct)
  case (1 a b c d e rest)
  then have ih: "group_by_four (e # rest) = join_with_space (chunks_of_four (e # rest))"
    by simp
  obtain g gs where g: "chunks_of_four (e # rest) = g # gs"
    using chunks_nonempty [of "e # rest"] by (cases "chunks_of_four (e # rest)") auto
  show ?case using 1(3) ih g by (simp add: chunks_long)
qed (simp_all add: chunks_short chunks_empty)

lemma length_group_by_four:
  "\<forall>c\<in>set ds. is_digit c
     \<Longrightarrow> length (group_by_four ds) = length ds + (length ds - 1) div 4"
proof (induction ds rule: group_by_four.induct)
  case (1 a b c d e rest)
  then have "length (group_by_four (e # rest))
               = length (e # rest) + (length (e # rest) - 1) div 4"
    by simp
  then show ?case using 1(3) by simp
qed simp_all

text \<open>
  Claim C7, as amended. For a timestamp of at least six digits (\<open>100000 \<le> now\<close>) the
  order identifier is \<open>ORD\<close> followed by exactly six decimal digits, and these are the
  last six digits of the timestamp: their value is the timestamp modulo \<open>10\<^sup>6\<close>.
\<close>

theorem orderId_six_digits:
  assumes "100000 \<le> now"
  shows "\<exists>ds. orderId now = ''ORD'' @ ds \<and> length ds = 6 \<and> (\<forall>c\<in>set ds. is_digit c)
            \<and> int (decimal_value ds) = now mod 1000000"
proof -
  have n: "100000 \<le> nat now" using assms by simp
  have "orderId now = ''ORD'' @ slice_from_end 6 (digits (nat now))"
    using assms by (simp add: orderId_def toString_def)
  moreover have "int (nat now mod 1000000) = now mod 1000000"
    using assms by (simp add: zmod_int)
  ultimately show ?thesis using last6_digits [OF n] by auto
qed

text \<open>The amended claim C7 at the timestamp 1730000123456.\<close>

theorem orderId_six_digits_witness:
  "(100000::int) \<le> 1730000123456 \<and> length (orderId 1730000123456) = 9
   \<and> orderId 1730000123456 = ''ORD123456''"
proof -
  have h: "(100000::int) \<le> 1730000123456" by simp
  obtain ds where ds: "orderId 1730000123456 = ''ORD'' @ ds" "length ds = 6"
    using orderId_six_digits [OF h] by blast
  have "orderId 1730000123456 = ''ORD123456''"
    using digits_example by (simp add: orderId_def toString_def slice_from_end_def)
  then show ?thesis using ds by simp
qed

text \<open>
  Claim C7 as stated fails for a timestamp of fewer than six digits: at the clock value
  12345 the identifier is \<open>ORD\<close> followed by five digits.
\<close>

theorem orderId_short_timestamp:
  "orderId 12345 = ''ORD12345'' \<and> length (drop 3 (orderId 12345)) = 5"
  by (simp add: orderId_def toString_def slice_from_end_def digits.simps digit_char_def
        char_of_eq_iff)

text \<open>
  Claim C8, as amended. \<open>formatCardNumber\<close> returns the digits of its input in groups of
  four joined by single spaces (no space after the last group); the result has at most
  19 characters whenever the input has at most 16 digits; and the example of the
  specification holds. The function itself does not cut its result.
\<close>

theorem formatCardNumber_groups:
  "formatCardNumber txt = spec_formatCardNumber txt
   \<and> (length (filter is_digit txt) \<le> 16 \<longrightarrow> length (formatCardNumber txt) \<le> 19)
   \<and> formatCardNumber ''4111111111111111'' = ''4111 1111 1111 1111''"
proof -
  let ?ds = "filter is_digit txt"
  have d: "\<forall>c\<in>set ?ds. is_digit c" by simp
  have f: "formatCardNumber txt = group_by_four ?ds"
    by (simp add: formatCardNumber_def strip_non_digits_def)
  have 1: "formatCardNumber txt = spec_formatCardNumber txt"
    using group_by_four_spec [OF d] f by (simp add: spec_formatCardNumber_def)
  have "length (formatCardNumber txt) = length ?ds + (length ?ds - 1) div 4"
    using length_group_by_four [OF d] f by simp
  then have 2: "length ?ds \<le> 16 \<longrightarrow> length (formatCardNumber txt) \<le> 19"
    by arith
  have 3: "formatCardNumber ''4111111111111111'' = ''4111 1111 1111 1111''"
    by (simp add: formatCardNumber_def strip_non_digits_def is_digit_def)
  show ?thesis using 1 2 3 by blast
qed

text \<open>The amended claim C8 at an input of eight digits and two other characters.\<close>

theorem formatCardNumber_groups_witness:
  "length (filter is_digit ''4111-2222x'') \<le> 16
   \<and> length (formatCardNumber ''4111-2222x'') \<le> 19
   \<and> formatCardNumber ''4111-2222x'' = spec_formatCardNumber ''4111-2222x''"
proof -
  have h: "length (filter is_digit ''4111-2222x'') \<le> 16"
    by (simp add: is_digit_def)
  show ?thesis using h formatCardNumber_groups [of "''4111-2222x''"] by blast
qed

text \<open>
  Claim C8 as stated fails in its cap: an input of 17 digits, which the input's
  \<^verbatim>\<open>maxLength\<close> of 19 lets through, is formatted to 21 characters.
\<close>

theorem formatCardNumber_not_capped:
  "length ''12345678901234567'' = 17
   \<and> formatCardNumber ''12345678901234567'' = ''1234 5678 9012 3456 7''
   \<and> length (formatCardNumber ''12345678901234567'') = 21"
  by (simp add: formatCardNumber_def strip_non_digits_def is_digit_def)

section \<open>Properties of the auth context\<close>

lemma first_part_split_on: "first_part (split_on c s) = takeWhile (\<lambda>x. x \<noteq> c) s"
  by (induction s) (auto split: list.splits)

lemma login_stored:
  assumes "getItem st ''credentials'' = Inr (Some (JSON_stringify (credentials_json e p n)))"
  shows "login e' p' (a, st) =
           (if e' = e \<and> p' = p
            then (Inr True,
                  (a\<lparr>user := user_json e
                        (JStr (if n = [] then takeWhile (\<lambda>c. c \<noteq> CHR ''@'') e else n)),
                     isLoading := False\<rparr>, st))
            else (Inr False, (a\<lparr>isLoading := False\<rparr>, st)))"
  using assms
  by (simp add: login_def login_try_def finally_do_def catch_all_def setIsLoading_def
        setUser_def JSON_stringify_def JSON_parse_def credentials_json_def js_or_def
        first_part_split_on getItem_def)

lemma login_keeps_storage: "snd (snd (login e p w)) = snd w"
  by (simp add: login_def login_try_def finally_do_def catch_all_def setIsLoading_def
        setUser_def Let_def split: sum.splits option.splits if_splits)

lemma user_key_never_written:
  "items (snd (snd (login e p w))) ''user'' = items (snd w) ''user''
   \<and> items (snd (snd (signup e p n w))) ''user'' = items (snd w) ''user''"
proof -
  have "items (snd (snd (signup e p n w))) ''user'' = items (snd w) ''user''"
    by (simp add: signup_def signup_try_def finally_do_def catch_all_def setIsLoading_def
          setUser_def setItem_def getItem_def
          split: sum.splits option.splits if_splits bool.splits)
  then show ?thesis by (simp add: login_keeps_storage)
qed

text \<open>
  Claim C1, evaluated on the code. On an empty storage a first signup with
  \<open>a@b.com\<close> succeeds and stores the credential record; a second signup with the same
  email also returns true and overwrites the stored record: the duplicate check reads
  the key \<open>user\<close>, which no operation writes.
\<close>

theorem signup_duplicate_accepted:
  "fst (signup ''a@b.com'' ''Secret1!'' ''Ann'' (initial_auth, empty_storage)) = Inr True
   \<and> items (snd (snd (signup ''a@b.com'' ''Secret1!'' ''Ann'' (initial_auth, empty_storage))))
        ''credentials''
       = Some (JSON_stringify (credentials_json ''a@b.com'' ''Secret1!'' ''Ann''))
   \<and> fst (signup ''a@b.com'' ''other'' ''Bob''
         (snd (signup ''a@b.com'' ''Secret1!'' ''Ann'' (initial_auth, empty_storage))))
       = Inr True
   \<and> items (snd (snd (signup ''a@b.com'' ''other'' ''Bob''
         (snd (signup ''a@b.com'' ''Secret1!'' ''Ann'' (initial_auth, empty_storage))))))
        ''credentials''
       = Some (JSON_stringify (credentials_json ''a@b.com'' ''other'' ''Bob''))"
  by (simp add: signup_def signup_try_def email_already_used_def finally_do_def catch_all_def
        setIsLoading_def setUser_def getItem_def setItem_def empty_storage_def)

text \<open>
  Claim C2, evaluated on the code. After a successful signup, and after a successful
  login that follows it, the session user is set in the provider's state, and the
  storage has no entry under the key \<open>user\<close>.
\<close>

theorem session_user_not_persisted:
  "fst (signup ''a@b.com'' ''Secret1!'' ''Ann'' (initial_auth, empty_storage)) = Inr True
   \<and> user (fst (snd (signup ''a@b.com'' ''Secret1!'' ''Ann'' (initial_auth, empty_storage))))
       = user_json ''a@b.com'' (JStr ''Ann'')
   \<and> items (snd (snd (signup ''a@b.com'' ''Secret1!'' ''Ann'' (initial_auth, empty_storage))))
        ''user'' = None
   \<and> fst (login ''a@b.com'' ''Secret1!''
         (snd (signup ''a@b.com'' ''Secret1!'' ''Ann'' (initial_auth, empty_storage))))
       = Inr True
   \<and> user (fst (snd (login ''a@b.com'' ''Secret1!''
         (snd (signup ''a@b.com'' ''Secret1!'' ''Ann'' (initial_auth, empty_storage))))))
       = user_json ''a@b.com'' (JStr ''Ann'')
   \<and> items (snd (snd (login ''a@b.com'' ''Secret1!''
         (snd (signup ''a@b.com'' ''Secret1!'' ''Ann'' (initial_auth, empty_storage))))))
        ''user'' = None"
  by (simp add: signup_def signup_try_def email_already_used_def finally_do_def catch_all_def
        setIsLoading_def setUser_def getItem_def setItem_def login_def login_try_def
        JSON_stringify_def JSON_parse_def credentials_json_def js_or_def empty_storage_def)

text \<open>
  Claim C3. When the key \<open>credentials\<close> holds the record \<open>{email: e, password: p, name: n}\<close>,
  \<open>login e p\<close> returns true and sets the session user to the object
  \<open>{id: "1", email: e, name: m}\<close>, where \<open>m\<close> is \<open>n\<close>, or the part of \<open>e\<close> before the first
  \<open>@\<close> when \<open>n\<close> is empty; with any other password \<open>login\<close> returns false and sets no
  user.
\<close>

theorem login_correct:
  assumes "getItem st ''credentials''
             = Inr (Some (JSON_stringify
                 (JObj [(''email'', JStr e), (''password'', JStr p), (''name'', JStr n)])))"
  shows "login e p (a, st) =
           (Inr True,
            (a\<lparr>user := JObj [(''id'', JStr ''1''), (''email'', JStr e),
                              (''name'', JStr (if n = [] then takeWhile (\<lambda>c. c \<noteq> CHR ''@'') e
                                               else n))],
               isLoading := False\<rparr>, st))
         \<and> get_prop (user (fst (snd (login e p (a, st))))) ''email'' = Inr (Some (JStr e))
         \<and> get_prop (user (fst (snd (login e p (a, st))))) ''name''
             = Inr (Some (JStr (if n = [] then takeWhile (\<lambda>c. c \<noteq> CHR ''@'') e else n)))
         \<and> (\<forall>p'. p' \<noteq> p \<longrightarrow> login e p' (a, st) = (Inr False, (a\<lparr>isLoading := False\<rparr>, st)))"
proof -
  have h: "getItem st ''credentials'' = Inr (Some (JSON_stringify (credentials_json e p n)))"
    using assms by (simp add: credentials_json_def)
  show ?thesis using login_stored [OF h] by (simp add: user_json_def)
qed

text \<open>
  Claim C3 at the stored record \<open>{ann@b.com, Secret1!, ""}\<close>: the right password logs in
  as \<open>{id: "1", email: ann@b.com, name: ann}\<close>, a wrong one is refused.
\<close>

theorem login_correct_witness:
  "getItem (empty_storage\<lparr>items := [''credentials'' \<mapsto> JSON_stringify
              (JObj [(''email'', JStr ''ann@b.com''), (''password'', JStr ''Secret1!''),
                     (''name'', JStr [])])]\<rparr>) ''credentials''
     = Inr (Some (JSON_stringify
              (JObj [(''email'', JStr ''ann@b.com''), (''password'', JStr ''Secret1!''),
                     (''name'', JStr [])])))
   \<and> fst (login ''ann@b.com'' ''Secret1!''
        (initial_auth, empty_storage\<lparr>items := [''credentials'' \<mapsto> JSON_stringify
              (JObj [(''email'', JStr ''ann@b.com''), (''password'', JStr ''Secret1!''),
                     (''name'', JStr [])])]\<rparr>)) = Inr True
   \<and> user (fst (snd (login ''ann@b.com'' ''Secret1!''
        (initial_auth, empty_storage\<lparr>items := [''credentials'' \<mapsto> JSON_stringify
              (JObj [(''email'', JStr ''ann@b.com''), (''password'', JStr ''Secret1!''),
                     (''name'', JStr [])])]\<rparr>))))
       = JObj [(''id'', JStr ''1''), (''email'', JStr ''ann@b.com''), (''name'', JStr ''ann'')]
   \<and> fst (login ''ann@b.com'' ''wrong''
        (initial_auth, empty_storage\<lparr>items := [''credentials'' \<mapsto> JSON_stringify
              (JObj [(''email'', JStr ''ann@b.com''), (''password'', JStr ''Secret1!''),
                     (''name'', JStr [])])]\<rparr>)) = Inr False
   \<and> user (fst (snd (login ''ann@b.com'' ''wrong''
        (initial_auth, empty_storage\<lparr>items := [''credentials'' \<mapsto> JSON_stringify
              (JObj [(''email'', JStr ''ann@b.com''), (''password'', JStr ''Secret1!''),
                     (''name'', JStr [])])]\<rparr>)))) = JNull"
proof -
  let ?st = "empty_storage\<lparr>items := [''credentials'' \<mapsto> JSON_stringify
              (JObj [(''email'', JStr ''ann@b.com''), (''password'', JStr ''Secret1!''),
                     (''name'', JStr [])])]\<rparr>"
  have h: "getItem ?st ''credentials''
             = Inr (Some (JSON_stringify
                 (JObj [(''email'', JStr ''ann@b.com''), (''password'', JStr ''Secret1!''),
                        (''name'', JStr [])])))"
    by (simp add: getItem_def empty_storage_def)
  show ?thesis
    using h login_correct [OF h, of initial_auth] by (simp add: initial_auth_def)
qed

text \<open>
  Claim C9. \<open>loadUser\<close> never rejects: whatever the storage holds and whether or not the
  read fails, it resolves, the loading flag is cleared and the storage is untouched; when
  the read fails or the stored string is not valid JSON the user is left as it was,
  which at startup is \<^verbatim>\<open>null\<close>.
\<close>

theorem loadUser_never_raises:
  "fst (loadUser (a, st)) = Inr ()
   \<and> \<not> isLoading (fst (snd (loadUser (a, st))))
   \<and> snd (snd (loadUser (a, st))) = st
   \<and> (read_fails st \<or> (\<exists>t. items st ''user'' = Some t \<and> JSON_parse t = Inl SyntaxError)
        \<longrightarrow> user (fst (snd (loadUser (a, st)))) = user a
            \<and> user (fst (snd (loadUser (initial_auth, st)))) = JNull)"
  by (auto simp: loadUser_def loadUser_try_def finally_do_def catch_all_def setIsLoading_def
        setUser_def getItem_def initial_auth_def split: sum.splits option.splits if_splits)

text \<open>Claim C9 at a storage whose \<open>user\<close> entry is not valid JSON.\<close>

theorem loadUser_never_raises_witness:
  "items (empty_storage\<lparr>items := [''user'' \<mapsto> Garbage]\<rparr>) ''user'' = Some Garbage
   \<and> JSON_parse Garbage = Inl SyntaxError
   \<and> fst (loadUser (initial_auth, empty_storage\<lparr>items := [''user'' \<mapsto> Garbage]\<rparr>)) = Inr ()
   \<and> \<not> isLoading (fst (snd (loadUser (initial_auth,
           empty_storage\<lparr>items := [''user'' \<mapsto> Garbage]\<rparr>))))
   \<and> user (fst (snd (loadUser (initial_auth,
           empty_storage\<lparr>items := [''user'' \<mapsto> Garbage]\<rparr>)))) = JNull"
proof -
  let ?st = "empty_storage\<lparr>items := [''user'' \<mapsto> Garbage]\<rparr>"
  have h: "items ?st ''user'' = Some Garbage \<and> JSON_parse Garbage = Inl SyntaxError"
    by (simp add: JSON_parse_def)
  then have "read_fails ?st \<or> (\<exists>t. items ?st ''user'' = Some t \<and> JSON_parse t = Inl SyntaxError)"
    by blast
  then show ?thesis
    using h loadUser_never_raises [of initial_auth ?st] by blast
qed

section \<open>Properties of the checkout steps\<close>

lemma inv_initial: "checkout_inv (initial_checkout t, t)"
  by (simp add: checkout_inv_def initial_checkout_def)

lemma inv_observe: "checkout_inv c \<Longrightarrow> checkout_inv (observe e c)"
proof (cases "showPaymentModal (fst c)")
  case False
  assume "checkout_inv c"
  then show ?thesis using False
    by (cases e) (auto simp: checkout_inv_def observe_def fire_def Let_def)
next
  case True
  assume "checkout_inv c"
  then show ?thesis using True
    by (cases e)
       (auto simp: checkout_inv_def observe_def fire_def Let_def rendered_def onChangeText_def
          isDetailsValid_def isPaymentValid_def handlePayment_def resetAndClose_def
          split: if_splits list.splits)
qed

lemma inv_run: "checkout_inv c \<Longrightarrow> checkout_inv (run es c)"
  by (induction es arbitrary: c) (simp_all add: inv_observe)

lemma success_only_from_processing:
  assumes "checkout_inv c"
    and "currentStep (fire e (fst c)) = Success"
    and "currentStep (fst c) \<noteq> Success"
  shows "currentStep (fst c) = Processing \<and> e = TimeoutFires \<and> snd c + 2500 \<le> clock (fst c)"
  using assms
  by (cases e)
     (auto simp: checkout_inv_def fire_def Let_def rendered_def onChangeText_def
        handlePayment_def resetAndClose_def
        split: if_splits list.splits)

lemmas checkout_eval = observe_def fire_def Let_def rendered_def onChangeText_def
  isDetailsValid_def isPaymentValid_def handlePayment_def initial_checkout_def blank_form_def
  formatCardNumber_def formatExpiryDate_def strip_non_digits_def is_digit_def

lemma to_payment_state:
  "currentStep (fst (run to_payment (initial_checkout 0, 0))) = Payment"
  by (simp add: to_payment_def checkout_eval)

lemma to_processing_state:
  "currentStep (fst (run to_processing (initial_checkout 0, 0))) = Processing
   \<and> paymentMethod (fst (run to_processing (initial_checkout 0, 0))) = Card
   \<and> currentStep (fire TimeoutFires (fst (run to_processing (initial_checkout 0, 0)))) = Success"
  by (simp add: to_processing_def to_payment_def checkout_eval)

text \<open>
  Claim C4. In every state that a run of events reaches from a freshly mounted modal:
  if the step is \<open>payment\<close> then none of the six shipping fields is empty; if the step is
  \<open>processing\<close> and the payment method is \<open>card\<close> then none of the four card fields is
  empty; and an event takes the step to \<open>success\<close> from another step only if that step is
  \<open>processing\<close>, the event is the timeout callback, and at least 2500 ms have passed on
  the clock since \<open>processing\<close> was entered.
\<close>

theorem checkout_linear:
  "(currentStep (fst (run es (initial_checkout t0, t0))) = Payment \<longrightarrow>
      formData (fst (run es (initial_checkout t0, t0))) FullName \<noteq> []
    \<and> formData (fst (run es (initial_checkout t0, t0))) Email \<noteq> []
    \<and> formData (fst (run es (initial_checkout t0, t0))) Phone \<noteq> []
    \<and> formData (fst (run es (initial_checkout t0, t0))) Address \<noteq> []
    \<and> formData (fst (run es (initial_checkout t0, t0))) City \<noteq> []
    \<and> formData (fst (run es (initial_checkout t0, t0))) ZipCode \<noteq> [])
   \<and> (currentStep (fst (run es (initial_checkout t0, t0))) = Processing
      \<and> paymentMethod (fst (run es (initial_checkout t0, t0))) = Card \<longrightarrow>
      formData (fst (run es (initial_checkout t0, t0))) CardNumber \<noteq> []
    \<and> formData (fst (run es (initial_checkout t0, t0))) ExpiryDate \<noteq> []
    \<and> formData (fst (run es (initial_checkout t0, t0))) Cvv \<noteq> []
    \<and> formData (fst (run es (initial_checkout t0, t0))) CardName \<noteq> [])
   \<and> (currentStep (fire e (fst (run es (initial_checkout t0, t0)))) = Success
      \<and> currentStep (fst (run es (initial_checkout t0, t0))) \<noteq> Success \<longrightarrow>
      currentStep (fst (run es (initial_checkout t0, t0))) = Processing
    \<and> e = TimeoutFires
    \<and> snd (run es (initial_checkout t0, t0)) + 2500
         \<le> clock (fst (run es (initial_checkout t0, t0))))"
proof -
  let ?c = "run es (initial_checkout t0, t0)"
  have inv: "checkout_inv ?c" by (rule inv_run [OF inv_initial])
  have 1: "currentStep (fst ?c) = Payment \<longrightarrow> isDetailsValid (fst ?c)"
    using inv by (simp add: checkout_inv_def Let_def)
  have 2: "currentStep (fst ?c) = Processing \<longrightarrow> isPaymentValid (fst ?c)"
    using inv by (simp add: checkout_inv_def Let_def)
  have 3: "currentStep (fire e (fst ?c)) = Success \<and> currentStep (fst ?c) \<noteq> Success \<longrightarrow>
           currentStep (fst ?c) = Processing \<and> e = TimeoutFires
           \<and> snd ?c + 2500 \<le> clock (fst ?c)"
    using success_only_from_processing [OF inv] by blast
  show ?thesis
    using 1 2 3 by (simp add: isDetailsValid_def isPaymentValid_def)
qed

text \<open>
  Claim C4 on two runs: one that fills in the shipping form and continues to the payment
  step, and one that goes on to fill in the card form, pays and waits 2500 ms, after which
  the timeout callback enters the success step.
\<close>

theorem checkout_linear_witness:
  "currentStep (fst (run to_payment (initial_checkout 0, 0))) = Payment
   \<and> formData (fst (run to_payment (initial_checkout 0, 0))) FullName \<noteq> []
   \<and> formData (fst (run to_payment (initial_checkout 0, 0))) ZipCode \<noteq> []
   \<and> currentStep (fst (run to_processing (initial_checkout 0, 0))) = Processing
   \<and> paymentMethod (fst (run to_processing (initial_checkout 0, 0))) = Card
   \<and> formData (fst (run to_processing (initial_checkout 0, 0))) CardNumber \<noteq> []
   \<and> formData (fst (run to_processing (initial_checkout 0, 0))) Cvv \<noteq> []
   \<and> currentStep (fire TimeoutFires (fst (run to_processing (initial_checkout 0, 0)))) = Success
   \<and> snd (run to_processing (initial_checkout 0, 0)) + 2500
        \<le> clock (fst (run to_processing (initial_checkout 0, 0)))"
proof -
  note a = checkout_linear [where es = to_payment and ?t0.0 = 0 and e = TimeoutFires]
  note b = checkout_linear [where es = to_processing and ?t0.0 = 0 and e = TimeoutFires]
  have 1: "formData (fst (run to_payment (initial_checkout 0, 0))) FullName \<noteq> []
         \<and> formData (fst (run to_payment (initial_checkout 0, 0))) ZipCode \<noteq> []"
    using a [THEN conjunct1] to_payment_state by blast
  have 2: "formData (fst (run to_processing (initial_checkout 0, 0))) CardNumber \<noteq> []
         \<and> formData (fst (run to_processing (initial_checkout 0, 0))) Cvv \<noteq> []"
    using b [THEN conjunct2, THEN conjunct1] to_processing_state by blast
  have 3: "snd (run to_processing (initial_checkout 0, 0)) + 2500
             \<le> clock (fst (run to_processing (initial_checkout 0, 0)))"
    using b [THEN conjunct2, THEN conjunct2] to_processing_state by simp
  show ?thesis using to_payment_state to_processing_state 1 2 3 by blast
qed

section \<open>Properties of the login screen\<close>

lemma validateForm_valid:
  "validateEmail (email scr) = None \<Longrightarrow> validatePassword (password scr) = None \<Longrightarrow>
   validateForm scr = (True, scr\<lparr>errors := no_errors, touched := {''email'', ''password''}\<rparr>)"
  by (simp add: validateForm_def falsy_message_def or_undefined_def no_errors_def)

lemma handleLogin_blocked:
  "isBlocked scr \<Longrightarrow>
   handleLogin login_op scr w =
     (scr, w, [Alert ''Account Temporarily Locked''
                (''Too many failed login attempts. Please wait ''
                 @ digits (ceil_div (blockTimeRemaining scr) 60000)
                 @ '' minute(s) before trying again.'')])"
  by (simp add: handleLogin_def)

lemma handleLogin_open:
  "\<not> isBlocked scr \<Longrightarrow> fst (validateForm scr) \<Longrightarrow>
   handleLogin login_op scr w =
     on_login_result (snd (validateForm scr))
       (login_op (toLowerCase (trim (email scr))) (remove_angle_brackets (password scr)) w)"
  by (auto simp: handleLogin_def split: prod.splits)

lemma handleLogin_invalid:
  "\<not> isBlocked scr \<Longrightarrow> \<not> fst (validateForm scr) \<Longrightarrow>
   handleLogin login_op scr w = (snd (validateForm scr), w, [])"
  by (auto simp: handleLogin_def split: prod.splits)








lemma validateEmail_example: "validateEmail ''ab@cd.ef'' = None"
  by (simp add: validateEmail_def validate_parts_def trim_def toLowerCase_def lower_char_def
        is_space_def emailRegex_def is_alnum_def is_alpha_def is_digit_def startsWith_def
        endsWith_def domainSuggestions_def)

lemma validatePassword_example:
  "validatePassword ''a<b>c'' = None \<and> validatePassword ''wrong'' = None
   \<and> validatePassword ''Secret1!'' = None"
  by (simp add: validatePassword_def)

lemma sanitized_example:
  "toLowerCase (trim ''ab@cd.ef'') = ''ab@cd.ef'' \<and> remove_angle_brackets ''a<b>c'' = ''abc''
   \<and> remove_angle_brackets ''wrong'' = ''wrong''
   \<and> remove_angle_brackets ''Secret1!'' = ''Secret1!''"
  by (simp add: trim_def toLowerCase_def lower_char_def is_space_def remove_angle_brackets_def)

lemma example_stored:
  "getItem example_storage ''credentials''
     = Inr (Some (JSON_stringify (credentials_json ''ab@cd.ef'' ''a<b>c'' ''Ann'')))"
  by (simp add: example_storage_def getItem_def empty_storage_def)


lemma correct_screen_fields:
  "email correct_screen = ''ab@cd.ef'' \<and> password correct_screen = ''Secret1!''
   \<and> attemptCount correct_screen = 3 \<and> \<not> isBlocked correct_screen"
  by (simp add: correct_screen_def initial_login_screen_def)


lemma act_edit_limiter:
  "x \<noteq> PressLogin \<Longrightarrow>
   attemptCount (fst (act x sw)) = attemptCount (fst sw)
   \<and> isBlocked (fst (act x sw)) = isBlocked (fst sw)
   \<and> blockTimeRemaining (fst (act x sw)) = blockTimeRemaining (fst sw)"
  by (cases x)
     (simp_all add: handleEmailChange_def handlePasswordChange_def handleFieldBlur_def Let_def)

lemma press_not_attempt:
  "press_outcome sw = None \<Longrightarrow>
   attemptCount (fst (act PressLogin sw)) = attemptCount (fst sw)
   \<and> isBlocked (fst (act PressLogin sw)) = isBlocked (fst sw)
   \<and> blockTimeRemaining (fst (act PressLogin sw)) = blockTimeRemaining (fst sw)"
  by (cases "isBlocked (fst sw)")
     (auto simp: press_outcome_def submit_def handleLogin_def validateForm_def Let_def
        split: if_splits)

lemma press_rejected:
  "press_outcome sw = Some (Inl e) \<Longrightarrow>
   attemptCount (fst (act PressLogin sw)) = attemptCount (fst sw)
   \<and> isBlocked (fst (act PressLogin sw)) = isBlocked (fst sw)
   \<and> blockTimeRemaining (fst (act PressLogin sw)) = blockTimeRemaining (fst sw)"
proof -
  assume a: "press_outcome sw = Some (Inl e)"
  let ?r = "login (toLowerCase (trim (email (fst sw))))
              (remove_angle_brackets (password (fst sw))) (snd sw)"
  obtain r w' where r: "?r = (r, w')" by (cases ?r)
  have nb: "\<not> isBlocked (fst sw)" and v: "fst (validateForm (fst sw))" and re: "r = Inl e"
    using a r by (auto simp: press_outcome_def split: if_splits)
  show ?thesis using nb v r re
    by (auto simp: submit_def handleLogin_def on_login_result_def Let_def validateForm_def
          split: prod.splits)
qed

lemma press_failed:
  assumes "press_outcome sw = Some (Inr False)"
  shows "attemptCount (fst (act PressLogin sw)) = attemptCount (fst sw) + 1
   \<and> isBlocked (fst (act PressLogin sw)) = (5 \<le> attemptCount (fst sw) + 1)
   \<and> blockTimeRemaining (fst (act PressLogin sw))
       = (if 5 \<le> attemptCount (fst sw) + 1 then 900000 else blockTimeRemaining (fst sw))
   \<and> snd (snd (handleLogin login (fst sw) (snd sw)))
       = (if 5 \<le> attemptCount (fst sw) + 1
          then [Alert ''Account Temporarily Locked''
                  ''Too many failed login attempts. Your account is locked for 15 minutes.'']
          else [])"
proof -
  let ?r = "login (toLowerCase (trim (email (fst sw))))
              (remove_angle_brackets (password (fst sw))) (snd sw)"
  obtain r w' where r: "?r = (r, w')" by (cases ?r)
  have nb: "\<not> isBlocked (fst sw)" and v: "fst (validateForm (fst sw))" and re: "r = Inr False"
    using assms r by (auto simp: press_outcome_def split: if_splits)
  show ?thesis using nb v r re
    by (auto simp: submit_def handleLogin_def on_login_result_def MAX_ATTEMPTS_def
          BLOCK_DURATION_def Let_def validateForm_def split: prod.splits)
qed

lemma press_succeeded:
  assumes "press_outcome sw = Some (Inr True)"
  shows "attemptCount (fst (act PressLogin sw)) = 0 \<and> \<not> isBlocked (fst (act PressLogin sw))
       \<and> snd (snd (handleLogin login (fst sw) (snd sw))) = [Replace ''../HomePage'']"
proof -
  let ?r = "login (toLowerCase (trim (email (fst sw))))
              (remove_angle_brackets (password (fst sw))) (snd sw)"
  obtain r w' where r: "?r = (r, w')" by (cases ?r)
  have nb: "\<not> isBlocked (fst sw)" and v: "fst (validateForm (fst sw))" and re: "r = Inr True"
    using assms r by (auto simp: press_outcome_def split: if_splits)
  show ?thesis using nb v r re
    by (auto simp: submit_def handleLogin_def on_login_result_def Let_def validateForm_def
          split: prod.splits)
qed

lemma blocked_run:
  "isBlocked (fst sw) \<Longrightarrow>
   failed_attempts xs sw = Some 0
   \<and> attemptCount (fst (run_actions xs sw)) = attemptCount (fst sw)
   \<and> isBlocked (fst (run_actions xs sw))
   \<and> blockTimeRemaining (fst (run_actions xs sw)) = blockTimeRemaining (fst sw)"
proof (induction xs arbitrary: sw)
  case Nil
  then show ?case by simp
next
  case (Cons x xs)
  show ?case
  proof (cases "x = PressLogin")
    case True
    have n: "press_outcome sw = None" using Cons.prems by (simp add: press_outcome_def)
    have "isBlocked (fst (act x sw))" using press_not_attempt [OF n] Cons.prems True by simp
    then show ?thesis using Cons.IH [of "act x sw"] press_not_attempt [OF n] True n by simp
  next
    case False
    have "isBlocked (fst (act x sw))" using act_edit_limiter [OF False, of sw] Cons.prems by simp
    then show ?thesis using Cons.IH [of "act x sw"] act_edit_limiter [OF False, of sw] False
      by simp
  qed
qed

lemma open_run:
  "\<not> isBlocked (fst sw) \<Longrightarrow> attemptCount (fst sw) < 5 \<Longrightarrow> failed_attempts xs sw = Some n \<Longrightarrow>
   attemptCount (fst sw) + n \<le> 5
   \<and> attemptCount (fst (run_actions xs sw)) = attemptCount (fst sw) + n
   \<and> isBlocked (fst (run_actions xs sw)) = (attemptCount (fst sw) + n = 5)
   \<and> (attemptCount (fst sw) + n = 5 \<longrightarrow> blockTimeRemaining (fst (run_actions xs sw)) = 900000)"
proof (induction xs arbitrary: sw n)
  case Nil
  then show ?case by simp
next
  case (Cons x xs)
  show ?case
  proof (cases "x = PressLogin")
    case False
    have k: "\<not> isBlocked (fst (act x sw))" "attemptCount (fst (act x sw)) = attemptCount (fst sw)"
      using act_edit_limiter [OF False, of sw] Cons.prems by simp_all
    have "failed_attempts xs (act x sw) = Some n" using Cons.prems(3) False by simp
    then show ?thesis using Cons.IH [of "act x sw" n] k Cons.prems(2) by simp
  next
    case True
    show ?thesis
    proof (cases "press_outcome sw")
      case None
      have k: "\<not> isBlocked (fst (act x sw))" "attemptCount (fst (act x sw)) = attemptCount (fst sw)"
        using press_not_attempt [OF None] Cons.prems True by simp_all
      have "failed_attempts xs (act x sw) = Some n" using Cons.prems(3) True None by simp
      then show ?thesis using Cons.IH [of "act x sw" n] k Cons.prems(2) by simp
    next
      case (Some r)
      show ?thesis
      proof (cases r)
        case (Inl e)
        have k: "\<not> isBlocked (fst (act x sw))" "attemptCount (fst (act x sw)) = attemptCount (fst sw)"
          using press_rejected [of sw e] Some Inl Cons.prems True by simp_all
        have "failed_attempts xs (act x sw) = Some n" using Cons.prems(3) True Some Inl by simp
        then show ?thesis using Cons.IH [of "act x sw" n] k Cons.prems(2) by simp
      next
        case (Inr b)
        have b: "b = False" using Cons.prems(3) True Some Inr by (cases b) simp_all
        then obtain m where m: "failed_attempts xs (act x sw) = Some m" "n = Suc m"
          using Cons.prems(3) True Some Inr by auto
        note f = press_failed [of sw] 
        have po: "press_outcome sw = Some (Inr False)" using Some Inr b by simp
        show ?thesis
        proof (cases "attemptCount (fst sw) = 4")
          case four: True
          have blk: "isBlocked (fst (act x sw))" "attemptCount (fst (act x sw)) = 5"
            "blockTimeRemaining (fst (act x sw)) = 900000"
            using f [OF po] four True by simp_all
          have "m = 0" using blocked_run [OF blk(1), of xs] m(1) by simp
          then show ?thesis using blocked_run [OF blk(1), of xs] blk m four True by simp
        next
          case nf: False
          have k: "\<not> isBlocked (fst (act x sw))"
            "attemptCount (fst (act x sw)) = attemptCount (fst sw) + 1"
            "attemptCount (fst (act x sw)) < 5"
            using f [OF po] nf True Cons.prems(2) by simp_all
          show ?thesis using Cons.IH [OF k(1) k(3) m(1)] k m(2) True by simp
        qed
      qed
    qed
  qed
qed

lemma entered_email: "toLowerCase (trim '' AB@cd.ef'') = ''ab@cd.ef''"
  by (simp add: trim_def toLowerCase_def lower_char_def is_space_def char_of_eq_iff)

lemma sanitized_more:
  "remove_angle_brackets ''Secret1'' = ''Secret1'' \<and> remove_angle_brackets ''secret1!'' = ''secret1!''
   \<and> remove_angle_brackets ''Secret2!'' = ''Secret2!''"
  by (simp add: remove_angle_brackets_def)

lemmas login_eval = login_def login_try_def finally_do_def catch_all_def setIsLoading_def
  setUser_def JSON_stringify_def JSON_parse_def credentials_json_def js_or_def getItem_def
  plain_storage_def empty_storage_def

lemmas screen_eval = press_outcome_def submit_def handleLogin_def validateForm_def
  on_login_result_def handleEmailChange_def handlePasswordChange_def handleFieldBlur_def
  validatePassword_def falsy_message_def or_undefined_def no_errors_def
  initial_login_screen_def MAX_ATTEMPTS_def BLOCK_DURATION_def Let_def

lemma four_failures_count:
  "failed_attempts four_failures (initial_login_screen, (initial_auth, plain_storage)) = Some 4
   \<and> attemptCount (fst (run_actions four_failures
         (initial_login_screen, (initial_auth, plain_storage)))) = 4"
  using validateEmail_example sanitized_example entered_email sanitized_more
  by (simp add: four_failures_def screen_eval login_eval)

lemma five_failures_count:
  "failed_attempts five_failures (initial_login_screen, (initial_auth, plain_storage)) = Some 5"
  using validateEmail_example sanitized_example entered_email sanitized_more
  by (simp add: five_failures_def four_failures_def screen_eval login_eval)

lemma wrong_password_outcome:
  "press_outcome (wrong_password_screen\<lparr>attemptCount := k\<rparr>, (a, plain_storage)) = Some (Inr False)"
  using validateEmail_example sanitized_example
  by (simp add: wrong_password_screen_def screen_eval login_eval)

lemma correct_password_outcome:
  "press_outcome (correct_screen, (a, plain_storage)) = Some (Inr True)"
  using validateEmail_example sanitized_example
  by (simp add: correct_screen_def screen_eval login_eval)

text \<open>
  Claim C5. Take any run of typing, leaving inputs and pressing the login button that
  starts from an open screen with count 0 and in which no login attempt succeeds, and let
  \<open>n\<close> be the number of its failed attempts. Then \<open>n\<close> is at most 5, the count after the run
  is \<open>n\<close>, and the screen is blocked after the run exactly when \<open>n = 5\<close>, with
  \<open>15 \<times> 60 \<times> 1000\<close> ms remaining. The failed attempt made at count 4 is the one that blocks
  the screen and raises the lockout alert; a failed attempt made at a smaller count leaves
  the screen open and adds one to the count; a successful attempt sets the count to 0.
\<close>

theorem lockout_on_fifth_failure:
  assumes "attemptCount scr = 0" and "\<not> isBlocked scr"
    and "failed_attempts xs (scr, w) = Some n"
  shows "n \<le> 5
       \<and> attemptCount (fst (run_actions xs (scr, w))) = n
       \<and> (isBlocked (fst (run_actions xs (scr, w))) \<longleftrightarrow> n = 5)
       \<and> (n = 5 \<longrightarrow> blockTimeRemaining (fst (run_actions xs (scr, w))) = 15 * 60 * 1000)
       \<and> (attemptCount (fst sw4) = 4 \<and> press_outcome sw4 = Some (Inr False) \<longrightarrow>
            isBlocked (fst (act PressLogin sw4))
            \<and> blockTimeRemaining (fst (act PressLogin sw4)) = 15 * 60 * 1000
            \<and> snd (snd (handleLogin login (fst sw4) (snd sw4)))
                = [Alert ''Account Temporarily Locked''
                     ''Too many failed login attempts. Your account is locked for 15 minutes.''])
       \<and> (attemptCount (fst sw3) < 4 \<and> press_outcome sw3 = Some (Inr False) \<longrightarrow>
            \<not> isBlocked (fst (act PressLogin sw3))
            \<and> attemptCount (fst (act PressLogin sw3)) = attemptCount (fst sw3) + 1)
       \<and> (press_outcome sw1 = Some (Inr True) \<longrightarrow> attemptCount (fst (act PressLogin sw1)) = 0)"
proof -
  have s: "\<not> isBlocked (fst (scr, w))" "attemptCount (fst (scr, w)) < 5"
    using assms(1,2) by simp_all
  have 1: "n \<le> 5
       \<and> attemptCount (fst (run_actions xs (scr, w))) = n
       \<and> (isBlocked (fst (run_actions xs (scr, w))) \<longleftrightarrow> n = 5)
       \<and> (n = 5 \<longrightarrow> blockTimeRemaining (fst (run_actions xs (scr, w))) = 15 * 60 * 1000)"
    using open_run [OF s assms(3)] assms(1) by simp
  have 2: "attemptCount (fst sw4) = 4 \<and> press_outcome sw4 = Some (Inr False) \<longrightarrow>
            isBlocked (fst (act PressLogin sw4))
            \<and> blockTimeRemaining (fst (act PressLogin sw4)) = 15 * 60 * 1000
            \<and> snd (snd (handleLogin login (fst sw4) (snd sw4)))
                = [Alert ''Account Temporarily Locked''
                     ''Too many failed login attempts. Your account is locked for 15 minutes.'']"
    using press_failed [of sw4] by simp
  have 3: "attemptCount (fst sw3) < 4 \<and> press_outcome sw3 = Some (Inr False) \<longrightarrow>
            \<not> isBlocked (fst (act PressLogin sw3))
            \<and> attemptCount (fst (act PressLogin sw3)) = attemptCount (fst sw3) + 1"
    using press_failed [of sw3] by simp
  have 4: "press_outcome sw1 = Some (Inr True) \<longrightarrow> attemptCount (fst (act PressLogin sw1)) = 0"
    using press_succeeded [of sw1] by simp
  show ?thesis using 1 2 3 4 by blast
qed

text \<open>
  Claim C5 on two runs against the stored example account, with the password retyped and
  inputs left between the presses and one press on an empty password: the first has four
  failed attempts and leaves the screen open, the second has five and locks it; and on
  single presses at count 4, at count 3 and with the right password.
\<close>

theorem lockout_on_fifth_failure_witness:
  "attemptCount initial_login_screen = 0 \<and> \<not> isBlocked initial_login_screen
   \<and> failed_attempts four_failures (initial_login_screen, (initial_auth, plain_storage)) = Some 4
   \<and> attemptCount (fst (run_actions four_failures
         (initial_login_screen, (initial_auth, plain_storage)))) = 4
   \<and> \<not> isBlocked (fst (run_actions four_failures
         (initial_login_screen, (initial_auth, plain_storage))))
   \<and> failed_attempts five_failures (initial_login_screen, (initial_auth, plain_storage)) = Some 5
   \<and> attemptCount (fst (run_actions five_failures
         (initial_login_screen, (initial_auth, plain_storage)))) = 5
   \<and> isBlocked (fst (run_actions five_failures
         (initial_login_screen, (initial_auth, plain_storage))))
   \<and> blockTimeRemaining (fst (run_actions five_failures
         (initial_login_screen, (initial_auth, plain_storage)))) = 900000
   \<and> press_outcome (wrong_password_screen\<lparr>attemptCount := 4\<rparr>, (initial_auth, plain_storage))
        = Some (Inr False)
   \<and> isBlocked (fst (act PressLogin
        (wrong_password_screen\<lparr>attemptCount := 4\<rparr>, (initial_auth, plain_storage))))
   \<and> press_outcome (wrong_password_screen\<lparr>attemptCount := 3\<rparr>, (initial_auth, plain_storage))
        = Some (Inr False)
   \<and> \<not> isBlocked (fst (act PressLogin
        (wrong_password_screen\<lparr>attemptCount := 3\<rparr>, (initial_auth, plain_storage))))
   \<and> attemptCount correct_screen = 3
   \<and> press_outcome (correct_screen, (initial_auth, plain_storage)) = Some (Inr True)
   \<and> attemptCount (fst (act PressLogin (correct_screen, (initial_auth, plain_storage)))) = 0"
proof -
  let ?w = "(initial_auth, plain_storage)"
  have h1: "attemptCount initial_login_screen = 0" and h2: "\<not> isBlocked initial_login_screen"
    by (simp_all add: initial_login_screen_def)
  have f4: "failed_attempts four_failures (initial_login_screen, ?w) = Some 4"
    using four_failures_count by simp
  note f5 = five_failures_count
  note o4 = wrong_password_outcome [of 4 initial_auth]
  note o3 = wrong_password_outcome [of 3 initial_auth]
  note o1 = correct_password_outcome [of initial_auth]
  note a = lockout_on_fifth_failure [where ?sw4.0 = "(wrong_password_screen\<lparr>attemptCount := 4\<rparr>, ?w)"
      and ?sw3.0 = "(wrong_password_screen\<lparr>attemptCount := 3\<rparr>, ?w)"
      and ?sw1.0 = "(correct_screen, ?w)", OF h1 h2 f4]
  note b = lockout_on_fifth_failure [where ?sw4.0 = "(wrong_password_screen\<lparr>attemptCount := 4\<rparr>, ?w)"
      and ?sw3.0 = "(wrong_password_screen\<lparr>attemptCount := 3\<rparr>, ?w)"
      and ?sw1.0 = "(correct_screen, ?w)", OF h1 h2 f5]
  have r4: "attemptCount (fst (run_actions four_failures (initial_login_screen, ?w))) = 4
          \<and> \<not> isBlocked (fst (run_actions four_failures (initial_login_screen, ?w)))"
    using a by simp
  have r5: "attemptCount (fst (run_actions five_failures (initial_login_screen, ?w))) = 5
          \<and> isBlocked (fst (run_actions five_failures (initial_login_screen, ?w)))
          \<and> blockTimeRemaining (fst (run_actions five_failures (initial_login_screen, ?w)))
              = 900000"
    using b by simp
  have p4: "isBlocked (fst (act PressLogin (wrong_password_screen\<lparr>attemptCount := 4\<rparr>, ?w)))"
    using b o4 by simp
  have p3: "\<not> isBlocked (fst (act PressLogin (wrong_password_screen\<lparr>attemptCount := 3\<rparr>, ?w)))"
    using b o3 by simp
  have p1: "attemptCount (fst (act PressLogin (correct_screen, ?w))) = 0"
    using b o1 by blast
  show ?thesis
    using h1 h2 f4 f5 r4 r5 o4 o3 o1 p4 p3 p1 correct_screen_fields by blast
qed












lemma remove_angle_brackets_set:
  "CHR ''<'' \<notin> set (remove_angle_brackets pw) \<and> CHR ''>'' \<notin> set (remove_angle_brackets pw)"
  by (simp add: remove_angle_brackets_def)

lemma on_login_result_failed:
  "on_login_result scr (Inr False, w) = (scr', w', effects) \<Longrightarrow>
   w' = w \<and> Replace ''../HomePage'' \<notin> set effects"
  by (auto simp: on_login_result_def Let_def split: if_splits)

lemma angle_password_never_matches:
  assumes st: "getItem st ''credentials'' = Inr (Some (JSON_stringify (credentials_json e p n)))"
    and ang: "CHR ''<'' \<in> set p \<or> CHR ''>'' \<in> set p"
  shows "Replace ''../HomePage'' \<notin> set (snd (snd (handleLogin login scr (a, st))))
       \<and> user (fst (fst (snd (handleLogin login scr (a, st))))) = user a"
proof (cases "isBlocked scr")
  case True
  then show ?thesis by (simp add: handleLogin_blocked)
next
  case False
  show ?thesis
  proof (cases "fst (validateForm scr)")
    case f: False
    show ?thesis using False f by (simp add: handleLogin_invalid)
  next
    case t: True
    let ?e = "toLowerCase (trim (email scr))" and ?p = "remove_angle_brackets (password scr)"
    have "?p \<noteq> p" using ang remove_angle_brackets_set [of "password scr"] by metis
    then have l: "login ?e ?p (a, st) = (Inr False, (a\<lparr>isLoading := False\<rparr>, st))"
      using login_stored [OF st, of ?e ?p a] by simp
    have h: "handleLogin login scr (a, st)
               = on_login_result (snd (validateForm scr)) (Inr False, (a\<lparr>isLoading := False\<rparr>, st))"
      using handleLogin_open [OF False t, of login "(a, st)"] l by simp
    obtain scr' w' effects where r: "handleLogin login scr (a, st) = (scr', w', effects)"
      by (cases "handleLogin login scr (a, st)")
    then have "w' = (a\<lparr>isLoading := False\<rparr>, st) \<and> Replace ''../HomePage'' \<notin> set effects"
      using h on_login_result_failed [of "snd (validateForm scr)" "(a\<lparr>isLoading := False\<rparr>, st)" scr' w' effects]
      by simp
    then show ?thesis using r by simp
  qed
qed

text \<open>
  Claim C10. When the screen is open and the form is valid, \<open>handleLogin\<close> calls the login
  operation with the entered email trimmed and lowercased and with the entered password
  filtered of every \<open><\<close> and \<open>>\<close>, and proceeds on the result; otherwise the login
  operation has no influence. The forwarded password contains neither character, so
  against a stored account whose password contains one of them no press of the login
  button navigates to the home page or sets a user, whatever is entered; and what is
  typed into the password input is the entered password, unchanged.
\<close>

theorem login_password_sanitized:
  "(\<not> isBlocked scr \<and> fst (validateForm scr) \<longrightarrow>
      handleLogin login_op scr w =
        on_login_result (snd (validateForm scr))
          (login_op (toLowerCase (trim (email scr)))
             (remove_angle_brackets (password scr)) w))
   \<and> (isBlocked scr \<or> \<not> fst (validateForm scr) \<longrightarrow>
        handleLogin login_op scr w = handleLogin other_op scr w)
   \<and> remove_angle_brackets (password scr)
        = filter (\<lambda>c. c \<noteq> CHR ''<'' \<and> c \<noteq> CHR ''>'') (password scr)
   \<and> CHR ''<'' \<notin> set (remove_angle_brackets (password scr))
   \<and> CHR ''>'' \<notin> set (remove_angle_brackets (password scr))
   \<and> (getItem st ''credentials'' = Inr (Some (JSON_stringify (credentials_json e p n)))
        \<and> (CHR ''<'' \<in> set p \<or> CHR ''>'' \<in> set p) \<longrightarrow>
        Replace ''../HomePage'' \<notin> set (snd (snd (handleLogin login scr (a, st))))
        \<and> user (fst (fst (snd (handleLogin login scr (a, st))))) = user a)
   \<and> password (handlePasswordChange typed scr) = typed
   \<and> email (handleEmailChange typed scr) = toLowerCase (trim typed)"
proof -
  have 5: "password (handlePasswordChange typed scr) = typed
         \<and> email (handleEmailChange typed scr) = toLowerCase (trim typed)"
    by (simp add: handlePasswordChange_def handleEmailChange_def Let_def)
  have 1: "\<not> isBlocked scr \<and> fst (validateForm scr) \<longrightarrow>
      handleLogin login_op scr w =
        on_login_result (snd (validateForm scr))
          (login_op (toLowerCase (trim (email scr)))
             (remove_angle_brackets (password scr)) w)"
    using handleLogin_open [of scr login_op w] by blast
  have 2: "isBlocked scr \<or> \<not> fst (validateForm scr) \<longrightarrow>
        handleLogin login_op scr w = handleLogin other_op scr w"
    using handleLogin_blocked [of scr login_op w] handleLogin_blocked [of scr other_op w]
      handleLogin_invalid [of scr login_op w] handleLogin_invalid [of scr other_op w]
    by (cases "isBlocked scr") auto
  have 3: "remove_angle_brackets (password scr)
        = filter (\<lambda>c. c \<noteq> CHR ''<'' \<and> c \<noteq> CHR ''>'') (password scr)"
    by (simp add: remove_angle_brackets_def)
  have 4: "getItem st ''credentials'' = Inr (Some (JSON_stringify (credentials_json e p n)))
        \<and> (CHR ''<'' \<in> set p \<or> CHR ''>'' \<in> set p) \<longrightarrow>
        Replace ''../HomePage'' \<notin> set (snd (snd (handleLogin login scr (a, st))))
        \<and> user (fst (fst (snd (handleLogin login scr (a, st))))) = user a"
    using angle_password_never_matches [of st e p n scr a] by blast
  show ?thesis using 1 2 3 4 5 remove_angle_brackets_set [of "password scr"] by blast
qed

text \<open>
  Claim C10 on the screen where the stored password \<open>a<b>c\<close> is entered exactly: the login
  operation receives \<open>abc\<close> and no user is set; and on the locked screen, where the
  login operation plays no part.
\<close>

theorem login_password_sanitized_witness:
  "\<not> isBlocked example_screen \<and> fst (validateForm example_screen)
   \<and> password example_screen = ''a<b>c''
   \<and> remove_angle_brackets (password example_screen) = ''abc''
   \<and> getItem example_storage ''credentials''
       = Inr (Some (JSON_stringify (credentials_json ''ab@cd.ef'' ''a<b>c'' ''Ann'')))
   \<and> CHR ''<'' \<in> set ''a<b>c''
   \<and> handleLogin login example_screen (initial_auth, example_storage)
       = on_login_result (snd (validateForm example_screen))
           (login ''ab@cd.ef'' ''abc'' (initial_auth, example_storage))
   \<and> user (fst (fst (snd (handleLogin login example_screen (initial_auth, example_storage)))))
       = JNull
   \<and> isBlocked locked_screen
   \<and> handleLogin login locked_screen (initial_auth, example_storage)
       = handleLogin (\<lambda>e p w. (Inr True, w)) locked_screen (initial_auth, example_storage)"
proof -
  have lb: "isBlocked locked_screen" by (simp add: locked_screen_def)
  have 3: "handleLogin login locked_screen (initial_auth, example_storage)
       = handleLogin (\<lambda>e p w. (Inr True, w)) locked_screen (initial_auth, example_storage)"
    using login_password_sanitized [where scr = locked_screen and login_op = login
        and other_op = "\<lambda>e p w. (Inr True, w)" and w = "(initial_auth, example_storage)",
        THEN conjunct2, THEN conjunct1] lb
    by blast
  have e: "email example_screen = ''ab@cd.ef''" and p: "password example_screen = ''a<b>c''"
    and nb: "\<not> isBlocked example_screen"
    by (simp_all add: example_screen_def initial_login_screen_def)
  have v: "fst (validateForm example_screen)"
    using validateForm_valid [of example_screen] validateEmail_example validatePassword_example e p
    by simp
  have c: "CHR ''<'' \<in> set ''a<b>c''" by simp
  note t = login_password_sanitized [where scr = example_screen and login_op = login
      and other_op = login and w = "(initial_auth, example_storage)" and st = example_storage
      and e = "''ab@cd.ef''" and p = "''a<b>c''" and n = "''Ann''" and a = initial_auth
      and typed = "''a<b>c''"]
  have 1: "handleLogin login example_screen (initial_auth, example_storage)
       = on_login_result (snd (validateForm example_screen))
           (login ''ab@cd.ef'' ''abc'' (initial_auth, example_storage))"
    using t [THEN conjunct1] nb v e p sanitized_example by simp
  have 2: "user (fst (fst (snd (handleLogin login example_screen (initial_auth, example_storage)))))
       = JNull"
    using t [THEN conjunct2, THEN conjunct2, THEN conjunct2, THEN conjunct2, THEN conjunct2,
             THEN conjunct1]
      example_stored c by (simp add: initial_auth_def)
  show ?thesis using nb v p sanitized_example example_stored c 1 2 3 lb by simp
qed

end
